theory Spec2Isabelle
  imports Complex_Main "HOL-Library.AList"
begin

section \<open>Python values\<close>

text \<open>
  Strings are lists of 8-bit code points (\<open>string\<close>), so \<open>length\<close> is Python's
  \<open>len\<close> on texts whose code points lie below 256. Exceptions are values of
  \<open>py_error\<close>; a function that may raise returns \<open>py_error + 'a\<close> with \<open>Inl\<close>
  for the exception.
\<close>

datatype py_error =
    JSONDecodeError
  | AttributeError
  | OverflowError
  | RecursionError
  | TransportError
  | NotModelled

text \<open>
  The values \<open>json.loads\<close> produces. A finite float is the rational it denotes; the
  decoder's non-standard constants (NaN, Infinity) are not represented. A dict is an
  association list in insertion order, read with \<open>map_of\<close> and written with
  \<open>AList.update\<close> (replace in place, else append), as Python's dict does.
\<close>

datatype json =
    JNull
  | JBool bool
  | JInt int
  | JFloat rat
  | JString string
  | JArray "json list"
  | JObject "(string \<times> json) list"

type_synonym dict = "(string \<times> json) list"

text \<open>Python truthiness of a decoded value, as used by \<open>x or ""\<close> and \<open>x or {}\<close>.\<close>

fun truthy :: "json \<Rightarrow> bool" where
  "truthy JNull = False"
| "truthy (JBool b) = b"
| "truthy (JInt i) = (i \<noteq> 0)"
| "truthy (JFloat q) = (q \<noteq> 0)"
| "truthy (JString s) = (s \<noteq> [])"
| "truthy (JArray xs) = (xs \<noteq> [])"
| "truthy (JObject kvs) = (kvs \<noteq> [])"

subsection \<open>String methods\<close>

text \<open>
  \<open>str.isspace\<close> on one code point below 256: TAB..CR, FS..US, space, NEL and
  the no-break space.
\<close>

definition isspace :: "char \<Rightarrow> bool" where
  "isspace c = (let n = (of_char c :: int) in
     (9 \<le> n \<and> n \<le> 13) \<or> (28 \<le> n \<and> n \<le> 32) \<or> n = 133 \<or> n = 160)"

text \<open>\<open>s.strip()\<close> and \<open>s.strip(chars)\<close>.\<close>

definition strip :: "string \<Rightarrow> string" where
  "strip s = rev (dropWhile isspace (rev (dropWhile isspace s)))"

definition strip_chars :: "string \<Rightarrow> string \<Rightarrow> string" where
  "strip_chars chars s =
     rev (dropWhile (\<lambda>c. c \<in> set chars) (rev (dropWhile (\<lambda>c. c \<in> set chars) s)))"

text \<open>
  \<open>s.split()\<close>: the maximal runs of non-whitespace, in order. The second argument
  is the word being read.
\<close>

fun split_ws :: "string \<Rightarrow> string \<Rightarrow> string list" where
  "split_ws [] cur = (if cur = [] then [] else [cur])"
| "split_ws (c # cs) cur =
     (if isspace c then (if cur = [] then split_ws cs [] else cur # split_ws cs [])
      else split_ws cs (cur @ [c]))"

definition split :: "string \<Rightarrow> string list" where
  "split s = split_ws s []"

text \<open>\<open>sep.join(words)\<close>.\<close>

fun join :: "string \<Rightarrow> string list \<Rightarrow> string" where
  "join sep [] = []"
| "join sep [w] = w"
| "join sep (w # v # ws) = w @ sep @ join sep (v # ws)"

text \<open>
  \<open>s.lower()\<close> below 256: A..Z and the Latin-1 capitals (192..222 without the
  multiplication sign 215) move up by 32.
\<close>

definition lower_char :: "char \<Rightarrow> char" where
  "lower_char c = (let n = (of_char c :: int) in
     if (65 \<le> n \<and> n \<le> 90) \<or> (192 \<le> n \<and> n \<le> 222 \<and> n \<noteq> 215)
     then char_of (n + 32) else c)"

definition lower :: "string \<Rightarrow> string" where
  "lower s = map lower_char s"

text \<open>
  \<open>str(n)\<close> for an integer: decimal digits, with a minus sign when negative.
  \<open>str_digits\<close> is called on non-negative numbers only.
\<close>

function str_digits :: "int \<Rightarrow> string" where
  "str_digits n = (if n < 10 then [char_of (48 + n)]
                   else str_digits (n div 10) @ [char_of (48 + n mod 10)])"
  by pat_completeness auto
termination
  by (relation "measure nat") auto

declare str_digits.simps [simp del]

definition str_int :: "int \<Rightarrow> string" where
  "str_int i = (if i < 0 then CHR ''-'' # str_digits (- i) else str_digits i)"

section \<open>The minimum length bound\<close>

text \<open>
  \<open>int(li.mls_char_limit * 0.9)\<close> multiplies an int by the double nearest to 0.9 and
  truncates. The double 0.9 is \<open>8106479329266893 / 2^53\<close>. The int is first converted
  to a double (round to nearest, ties to even, 53 significant bits; OverflowError from
  \<open>2^1024\<close> on), the product of the two doubles is rounded the same way, and \<open>int\<close>
  truncates towards zero. \<open>round53 p\<close> rounds a non-negative integer to 53 significant bits.
\<close>

function bit_length :: "int \<Rightarrow> nat" where
  "bit_length n = (if n \<le> 0 then 0 else Suc (bit_length (n div 2)))"
  by pat_completeness auto
termination
  by (relation "measure nat") auto

declare bit_length.simps [simp del]

definition round53 :: "int \<Rightarrow> int" where
  "round53 p =
     (let b = bit_length p in
      if b \<le> 53 then p
      else
        let s = b - 53;
            q = p div 2 ^ s;
            r = p mod 2 ^ s;
            h = 2 ^ (s - 1)
        in (if r > h \<or> (r = h \<and> odd q) then q + 1 else q) * 2 ^ s)"

definition double_0_9 :: int where
  "double_0_9 = 8106479329266893"

definition min_chars :: "int \<Rightarrow> py_error + int" where
  "min_chars limit =
     (let f = round53 \<bar>limit\<bar> in
      if f \<ge> 2 ^ 1024 then Inl OverflowError
      else
        let product = round53 (f * double_0_9);
            truncated = product div 2 ^ 53
        in Inr (if limit < 0 then - truncated else truncated))"

section \<open>The listing record and the model endpoint\<close>

text \<open>The dataclass \<open>ListingInput\<close>; a Python float field is the rational it denotes
  (the field \<open>keywords\<close> is \<open>listing_keywords\<close> here).\<close>

record ListingInput =
  address :: string
  city :: string
  state :: string
  zip_code :: string
  beds :: "rat option"
  baths :: "rat option"
  sqft :: "int option"
  lot_size :: "int option"
  year_built :: "int option"
  property_type :: string
  price :: "int option"
  listing_keywords :: "string list"
  upgrades_bullets :: string
  neighborhood_notes :: string
  target_buyer_profile :: string
  tone :: string
  mls_char_limit :: int
  detail_level :: string
  highlight_features :: "string list"

text \<open>
  The user prompts are f-string templates. A prompt is kept as the template it comes
  from together with the values interpolated into it: the listing for the context
  block, the length bounds, and for the revision the current text and its length.
\<close>

datatype prompt =
    PrimaryPrompt ListingInput int
  | SocialCaptionPrompt ListingInput
  | InstagramHashtagsPrompt ListingInput
  | VideoScriptPrompt ListingInput
  | MlsDescriptionPrompt ListingInput int
  | RevisionPrompt int int nat string

record request =
  system_prompt :: string
  user_prompt :: prompt
  temperature :: rat

text \<open>
  The completion endpoint is outside the program and not deterministic: its reply to a
  request may depend on every request made before. It either fails or returns the
  message content, which may be \<open>None\<close>. The decoder \<open>json.loads\<close> is library code
  and is a parameter as well. Every function that calls the endpoint takes the hist of
  the requests made so far and returns it extended.
\<close>

type_synonym endpoint = "request list \<Rightarrow> request \<Rightarrow> py_error + string option"
type_synonym decoder = "string \<Rightarrow> py_error + json"

definition chat_raw :: "endpoint \<Rightarrow> request \<Rightarrow> request list \<Rightarrow> (py_error + string) \<times> request list" where
  "chat_raw ep req hist =
     (case ep hist req of
        Inl e \<Rightarrow> (Inl e, hist @ [req])
      | Inr content \<Rightarrow> (Inr (case content of None \<Rightarrow> [] | Some s \<Rightarrow> s), hist @ [req]))"

section \<open>The response parser\<close>

text \<open>\<open>s.find(c)\<close>, \<open>s.rfind(c)\<close> for one character, and \<open>s[i:j]\<close> for \<open>0 \<le> i\<close>.\<close>

fun str_find :: "string \<Rightarrow> char \<Rightarrow> int" where
  "str_find [] c = - 1"
| "str_find (x # xs) c =
     (if x = c then 0 else (let i = str_find xs c in if i = - 1 then - 1 else i + 1))"

fun str_rfind :: "string \<Rightarrow> char \<Rightarrow> int" where
  "str_rfind [] c = - 1"
| "str_rfind (x # xs) c =
     (let i = str_rfind xs c in if i \<noteq> - 1 then i + 1 else if x = c then 0 else - 1)"

definition str_slice :: "string \<Rightarrow> int \<Rightarrow> int \<Rightarrow> string" where
  "str_slice s i j = take (nat (j - i)) (drop (nat i) s)"

definition safe_json_extract :: "decoder \<Rightarrow> string option \<Rightarrow> py_error + json" where
  "safe_json_extract loads text0 =
     (let text = (case text0 of None \<Rightarrow> [] | Some t \<Rightarrow> t) in
      case loads text of
        Inr v \<Rightarrow> Inr v
      | Inl e \<Rightarrow>
          if e = JSONDecodeError then
            (let start = str_find text CHR ''{'';
                 last = str_rfind text CHR ''}''
             in if start \<noteq> - 1 \<and> last \<noteq> - 1 \<and> last > start
                then loads (str_slice text start (last + 1))
                else Inl JSONDecodeError)
          else Inl e)"

definition chat_json ::
  "decoder \<Rightarrow> endpoint \<Rightarrow> string \<Rightarrow> prompt \<Rightarrow> rat \<Rightarrow> request list
     \<Rightarrow> (py_error + json \<times> string) \<times> request list" where
  "chat_json loads ep sys user temp hist =
     (case chat_raw ep \<lparr>system_prompt = sys, user_prompt = user, temperature = temp\<rparr> hist of
        (Inl e, hist') \<Rightarrow> (Inl e, hist')
      | (Inr raw, hist') \<Rightarrow>
          (case safe_json_extract loads (Some raw) of
             Inl e \<Rightarrow> (Inl e, hist')
           | Inr v \<Rightarrow> (Inr (v, raw), hist')))"

section \<open>Merge, repair and length enforcement\<close>

text \<open>
  The stages take \<open>data\<close> as a dict, as they are annotated (\<open>Dict[str, Any]\<close>), and
  return the dict that results; the assignment \<open>data["mls_description"] = ...\<close> in
  \<open>ensure_length\<close> is the update of the returned dict.

  \<open>merge_preserving\<close>: the original is a dict; the updates are whatever the decoder
  returned. \<open>updates or {}\<close> makes every falsy value an empty dict; \<open>.items()\<close>
  exists on dicts only.
\<close>

definition merge_preserving :: "dict \<Rightarrow> json \<Rightarrow> py_error + dict" where
  "merge_preserving original updates =
     (if \<not> truthy updates then Inr original
      else case updates of
        JObject kvs \<Rightarrow> Inr (fold (\<lambda>(k, v) out. AList.update k v out) kvs original)
      | _ \<Rightarrow> Inl AttributeError)"

definition REQUIRED_KEYS :: "string list" where
  "REQUIRED_KEYS = [''mls_description'', ''social_caption'', ''instagram_hashtags'', ''video_script_60s'']"

definition system_message :: string where
  "system_message = ''You are a meticulous, compliant real estate listing copywriter.''"

text \<open>\<open>isinstance(data.get(k), str) and data.get(k).strip()\<close>\<close>

definition has_text :: "dict \<Rightarrow> string \<Rightarrow> bool" where
  "has_text data k = (case map_of data k of Some (JString s) \<Rightarrow> strip s \<noteq> [] | _ \<Rightarrow> False)"

definition missing_keys :: "dict \<Rightarrow> string list" where
  "missing_keys data = filter (\<lambda>k. \<not> has_text data k) REQUIRED_KEYS"

text \<open>The if/elif chain choosing the repair prompt; \<open>None\<close> is the final \<open>continue\<close>.\<close>

definition repair_prompt :: "ListingInput \<Rightarrow> int \<Rightarrow> string \<Rightarrow> prompt option" where
  "repair_prompt li mn key =
     (if key = ''social_caption'' then Some (SocialCaptionPrompt li)
      else if key = ''instagram_hashtags'' then Some (InstagramHashtagsPrompt li)
      else if key = ''video_script_60s'' then Some (VideoScriptPrompt li)
      else if key = ''mls_description'' then Some (MlsDescriptionPrompt li mn)
      else None)"

fun repair_loop ::
  "decoder \<Rightarrow> endpoint \<Rightarrow> ListingInput \<Rightarrow> int \<Rightarrow> string list \<Rightarrow> dict \<Rightarrow> request list
     \<Rightarrow> (py_error + dict) \<times> request list" where
  "repair_loop loads ep li mn [] data hist = (Inr data, hist)"
| "repair_loop loads ep li mn (key # keys) data hist =
     (case repair_prompt li mn key of
        None \<Rightarrow> repair_loop loads ep li mn keys data hist
      | Some p \<Rightarrow>
          (case chat_json loads ep system_message p (45 / 100) hist of
             (Inl e, hist') \<Rightarrow> (Inl e, hist')
           | (Inr (partial, raw), hist') \<Rightarrow>
               (case merge_preserving data partial of
                  Inl e \<Rightarrow> (Inl e, hist')
                | Inr data' \<Rightarrow> repair_loop loads ep li mn keys data' hist')))"

definition validate_and_repair ::
  "decoder \<Rightarrow> endpoint \<Rightarrow> ListingInput \<Rightarrow> dict \<Rightarrow> request list
     \<Rightarrow> (py_error + dict) \<times> request list" where
  "validate_and_repair loads ep li data hist =
     (case min_chars (mls_char_limit li) of
        Inl e \<Rightarrow> (Inl e, hist)
      | Inr mn \<Rightarrow>
          (let missing = missing_keys data in
           if missing = [] then (Inr data, hist)
           else repair_loop loads ep li mn missing data hist))"

text \<open>\<open>(x or "").strip()\<close> for \<open>x = d.get(k)\<close>: only a string has \<open>strip\<close>.\<close>

definition text_or_empty :: "json option \<Rightarrow> py_error + string" where
  "text_or_empty x =
     (case x of
        None \<Rightarrow> Inr []
      | Some v \<Rightarrow>
          if \<not> truthy v then Inr []
          else (case v of JString s \<Rightarrow> Inr (strip s) | _ \<Rightarrow> Inl AttributeError))"

text \<open>\<open>v.get(k)\<close> on a decoded value: only a dict has \<open>get\<close>.\<close>

definition json_get :: "json \<Rightarrow> string \<Rightarrow> py_error + json option" where
  "json_get v k = (case v of JObject kvs \<Rightarrow> Inr (map_of kvs k) | _ \<Rightarrow> Inl AttributeError)"

definition revision_temperature :: "ListingInput \<Rightarrow> rat" where
  "revision_temperature li = (if detail_level li \<noteq> ''Concise'' then 5 / 10 else 35 / 100)"

definition ensure_length ::
  "decoder \<Rightarrow> endpoint \<Rightarrow> ListingInput \<Rightarrow> dict \<Rightarrow> request list
     \<Rightarrow> (py_error + dict) \<times> request list" where
  "ensure_length loads ep li data hist =
     (case min_chars (mls_char_limit li) of
        Inl e \<Rightarrow> (Inl e, hist)
      | Inr mn \<Rightarrow>
          (let mx = mls_char_limit li in
           case text_or_empty (map_of data ''mls_description'') of
             Inl e \<Rightarrow> (Inl e, hist)
           | Inr current \<Rightarrow>
               if mn \<le> int (length current) \<and> int (length current) \<le> mx then (Inr data, hist)
               else
                 (case chat_json loads ep system_message
                         (RevisionPrompt mn mx (length current) current)
                         (revision_temperature li) hist of
                    (Inl e, hist') \<Rightarrow> (Inl e, hist')
                  | (Inr (revision_json, raw), hist') \<Rightarrow>
                      (case json_get revision_json ''mls_description'' of
                         Inl e \<Rightarrow> (Inl e, hist')
                       | Inr x \<Rightarrow>
                           (case text_or_empty x of
                              Inl e \<Rightarrow> (Inl e, hist')
                            | Inr revised_desc \<Rightarrow>
                                if revised_desc \<noteq> []
                                then (Inr (AList.update ''mls_description'' (JString revised_desc) data), hist')
                                else (Inr data, hist'))))))"

text \<open>The request the repair loop sends for a prompt.\<close>

definition repair_request :: "prompt \<Rightarrow> request" where
  "repair_request p = \<lparr>system_prompt = system_message, user_prompt = p, temperature = 45 / 100\<rparr>"

text \<open>
  One pass of the loop body for a key that has a prompt: the request, then the merge
  of what the reply decodes to. Its result is an error exactly when the pass raises.
\<close>

definition repair_call ::
  "decoder \<Rightarrow> endpoint \<Rightarrow> prompt \<Rightarrow> dict \<Rightarrow> request list \<Rightarrow> (py_error + dict) \<times> request list" where
  "repair_call loads ep p data hist =
     (case chat_json loads ep system_message p (45 / 100) hist of
        (Inl e, hist') \<Rightarrow> (Inl e, hist')
      | (Inr (partial, raw), hist') \<Rightarrow> (merge_preserving data partial, hist'))"

text \<open>The one request \<open>ensure_length\<close> sends for a description \<open>current\<close>.\<close>

definition revision_request :: "ListingInput \<Rightarrow> int \<Rightarrow> string \<Rightarrow> request" where
  "revision_request li mn current =
     \<lparr>system_prompt = system_message,
      user_prompt = RevisionPrompt mn (mls_char_limit li) (length current) current,
      temperature = revision_temperature li\<rparr>"


section \<open>A decoder for concrete replies\<close>

text \<open>
  \<open>json_loads\<close> follows the decoder of Python's \<open>json\<close> module on JSON texts whose
  numbers are integers and whose strings use no \<open>\u\<close> escape: whitespace is space,
  TAB, LF and CR; a value is tried as string, object, array, \<open>null\<close>, \<open>true\<close>,
  \<open>false\<close>, number, in this order; duplicate keys keep the last value; a control
  character inside a string, a trailing comma and trailing text are errors. Texts that
  need a float or a \<open>\u\<close> escape give \<open>NotModelled\<close>. The first argument of the
  parsing functions bounds the number of nested calls.
\<close>

text \<open>\<open>s.startswith(p)\<close>, as \<open>s[i:i + len(p)] == p\<close> reads it.\<close>

definition prefix_of :: "string \<Rightarrow> string \<Rightarrow> bool" where
  "prefix_of p s = (take (length p) s = p)"

definition dq :: char where
  "dq = CHR 0x22"

definition backslash :: char where
  "backslash = CHR 0x5C"

definition json_ws :: "char \<Rightarrow> bool" where
  "json_ws c = (c = CHR '' '' \<or> c = CHR 0x09 \<or> c = CHR 0x0A \<or> c = CHR 0x0D)"

definition skip_ws :: "string \<Rightarrow> string" where
  "skip_ws s = dropWhile json_ws s"

definition is_digit :: "char \<Rightarrow> bool" where
  "is_digit c = (let n = (of_char c :: int) in 48 \<le> n \<and> n \<le> 57)"

definition unescape :: "char \<Rightarrow> char option" where
  "unescape e =
     (if e = dq then Some dq
      else if e = backslash then Some backslash
      else if e = CHR ''/'' then Some CHR ''/''
      else if e = CHR ''b'' then Some (CHR 0x08)
      else if e = CHR ''f'' then Some (CHR 0x0C)
      else if e = CHR ''n'' then Some (CHR 0x0A)
      else if e = CHR ''r'' then Some (CHR 0x0D)
      else if e = CHR ''t'' then Some (CHR 0x09)
      else None)"

text \<open>The text after an opening quote, up to the closing one.\<close>

fun scan_string :: "string \<Rightarrow> string \<Rightarrow> py_error + string \<times> string" where
  "scan_string [] acc = Inl JSONDecodeError"
| "scan_string (c # cs) acc =
     (if c = dq then Inr (acc, cs)
      else if c = backslash then
        (case cs of
           [] \<Rightarrow> Inl JSONDecodeError
         | e # cs' \<Rightarrow>
             if e = CHR ''u'' then Inl NotModelled
             else (case unescape e of
                     None \<Rightarrow> Inl JSONDecodeError
                   | Some ch \<Rightarrow> scan_string cs' (acc @ [ch])))
      else if (of_char c :: int) < 32 then Inl JSONDecodeError
      else scan_string cs (acc @ [c]))"

definition digits_value :: "string \<Rightarrow> int" where
  "digits_value ds = foldl (\<lambda>acc d. 10 * acc + (of_char d - 48)) 0 ds"

definition starts_fraction :: "string \<Rightarrow> bool" where
  "starts_fraction s = (case s of c # d # _ \<Rightarrow> c = CHR ''.'' \<and> is_digit d | _ \<Rightarrow> False)"

definition starts_exponent :: "string \<Rightarrow> bool" where
  "starts_exponent s =
     (case s of
        c # d # r \<Rightarrow>
          (c = CHR ''e'' \<or> c = CHR ''E'') \<and>
          (is_digit d \<or> ((d = CHR ''+'' \<or> d = CHR ''-'') \<and> (case r of x # _ \<Rightarrow> is_digit x | [] \<Rightarrow> False)))
      | _ \<Rightarrow> False)"

definition scan_number :: "string \<Rightarrow> py_error + json \<times> string" where
  "scan_number s =
     (let neg = (case s of c # _ \<Rightarrow> c = CHR ''-'' | [] \<Rightarrow> False);
          s1 = (if neg then tl s else s)
      in case s1 of
           [] \<Rightarrow> Inl JSONDecodeError
         | c # r \<Rightarrow>
             if \<not> is_digit c then
               (if neg \<and> prefix_of ''Infinity'' s1 then Inl NotModelled else Inl JSONDecodeError)
             else
               (let ds = (if c = CHR ''0'' then [c] else c # takeWhile is_digit r);
                    rest = (if c = CHR ''0'' then r else dropWhile is_digit r)
                in if starts_fraction rest \<or> starts_exponent rest then Inl NotModelled
                   else Inr (JInt (if neg then - digits_value ds else digits_value ds), rest)))"

fun parse_value :: "nat \<Rightarrow> string \<Rightarrow> py_error + json \<times> string"
  and parse_elements :: "nat \<Rightarrow> json list \<Rightarrow> string \<Rightarrow> py_error + json \<times> string"
  and parse_members :: "nat \<Rightarrow> dict \<Rightarrow> string \<Rightarrow> py_error + json \<times> string" where
  "parse_value 0 s = Inl RecursionError"
| "parse_value (Suc n) s =
     (case s of
        [] \<Rightarrow> Inl JSONDecodeError
      | c # r \<Rightarrow>
          if c = dq then
            (case scan_string r [] of
               Inl e \<Rightarrow> Inl e
             | Inr (str, rest) \<Rightarrow> Inr (JString str, rest))
          else if c = CHR ''{'' then
            (case skip_ws r of
               [] \<Rightarrow> Inl JSONDecodeError
             | c' # rest \<Rightarrow>
                 if c' = CHR ''}'' then Inr (JObject [], rest) else parse_members n [] (c' # rest))
          else if c = CHR ''['' then
            (case skip_ws r of
               [] \<Rightarrow> Inl JSONDecodeError
             | c' # rest \<Rightarrow>
                 if c' = CHR '']'' then Inr (JArray [], rest) else parse_elements n [] (c' # rest))
          else if prefix_of ''null'' s then Inr (JNull, drop 4 s)
          else if prefix_of ''true'' s then Inr (JBool True, drop 4 s)
          else if prefix_of ''false'' s then Inr (JBool False, drop 5 s)
          else if is_digit c \<or> c = CHR ''-'' then scan_number s
          else if prefix_of ''NaN'' s \<or> prefix_of ''Infinity'' s then Inl NotModelled
          else Inl JSONDecodeError)"
| "parse_elements 0 acc s = Inl RecursionError"
| "parse_elements (Suc n) acc s =
     (case parse_value n s of
        Inl e \<Rightarrow> Inl e
      | Inr (v, rest) \<Rightarrow>
          (case skip_ws rest of
             [] \<Rightarrow> Inl JSONDecodeError
           | c # r \<Rightarrow>
               if c = CHR '']'' then Inr (JArray (acc @ [v]), r)
               else if c = CHR '','' then parse_elements n (acc @ [v]) (skip_ws r)
               else Inl JSONDecodeError))"
| "parse_members 0 acc s = Inl RecursionError"
| "parse_members (Suc n) acc s =
     (case s of
        [] \<Rightarrow> Inl JSONDecodeError
      | c # r \<Rightarrow>
          if c \<noteq> dq then Inl JSONDecodeError
          else
            (case scan_string r [] of
               Inl e \<Rightarrow> Inl e
             | Inr (key, rest) \<Rightarrow>
                 (case skip_ws rest of
                    [] \<Rightarrow> Inl JSONDecodeError
                  | c2 # r2 \<Rightarrow>
                      if c2 \<noteq> CHR '':'' then Inl JSONDecodeError
                      else
                        (case parse_value n (skip_ws r2) of
                           Inl e \<Rightarrow> Inl e
                         | Inr (v, rest3) \<Rightarrow>
                             (case skip_ws rest3 of
                                [] \<Rightarrow> Inl JSONDecodeError
                              | c3 # r3 \<Rightarrow>
                                  if c3 = CHR ''}'' then Inr (JObject (AList.update key v acc), r3)
                                  else if c3 = CHR '','' then
                                    parse_members n (AList.update key v acc) (skip_ws r3)
                                  else Inl JSONDecodeError)))))"

definition json_loads :: decoder where
  "json_loads s =
     (case parse_value (2 * length s + 2) (skip_ws s) of
        Inl e \<Rightarrow> Inl e
      | Inr (v, rest) \<Rightarrow> if skip_ws rest = [] then Inr v else Inl JSONDecodeError)"

section \<open>Keywords from the feature selections\<close>

text \<open>The table returned by \<open>feature_taxonomy()\<close>: groups in order, each with its labels and their keyword variants.\<close>

definition feature_taxonomy :: "(string \<times> (string \<times> string list) list) list" where
  \<open>feature_taxonomy = [
    (''Exterior & Lot'', [
      (''Corner lot'', [''corner lot'']),
      (''Cul-de-sac'', [''cul-de-sac'']),
      (''Large backyard'', [''large backyard'', ''spacious yard'', ''big yard'']),
      (''Usable yard'', [''usable yard'', ''flat yard'']),
      (''Drought-tolerant landscaping'', [''drought tolerant'', ''low maintenance landscaping'']),
      (''Mature trees'', [''mature trees'']),
      (''Fruit trees'', [''fruit trees'']),
      (''Garden beds'', [''garden beds'']),
      (''RV/Boat parking'', [''rv parking'', ''boat parking'']),
      (''Gated driveway'', [''gated driveway'']),
      (''Circular driveway'', [''circular driveway'']),
      (''Motor court'', [''motor court'']),
      (''Privacy fencing'', [''privacy fencing'']),
      (''Privacy hedges'', [''privacy hedges'']),
      (''1-car garage'', [''1-car garage'', ''single car garage'']),
      (''2-car garage'', [''2-car garage'', ''two car garage'']),
      (''3-car garage'', [''3-car garage'', ''three car garage'']),
      (''4-car garage'', [''4-car garage'', ''four car garage'']),
      (''5-car+ garage'', [''5-car garage'', ''five car garage'']),
      (''Tandem garage'', [''tandem garage'']),
      (''Detached garage'', [''detached garage'']),
      (''Workshop area'', [''garage workshop'', ''workbench'']),
      (''Built-in garage storage'', [''garage storage'', ''built-in garage cabinets'']),
      (''EV charger (Level 2)'', [''ev charger'', ''240v outlet''])]),
    (''Outdoor Living'', [
      (''Covered patio'', [''covered patio'']),
      (''Pergola'', [''pergola'']),
      (''Gazebo'', [''gazebo'']),
      (''Retractable awning'', [''retractable awning'']),
      (''Deck (wood)'', [''wood deck'']),
      (''Deck (composite)'', [''composite deck'']),
      (''Rooftop deck'', [''rooftop deck'']),
      (''Wraparound porch'', [''wraparound porch'']),
      (''Balcony'', [''balcony'']),
      (''Built-in BBQ'', [''built-in bbq'']),
      (''Outdoor kitchen (sink/fridge)'', [''outdoor kitchen'', ''outdoor sink'', ''outdoor fridge'']),
      (''Bar seating'', [''bar seating'']),
      (''Fire pit'', [''fire pit'']),
      (''Outdoor fireplace'', [''outdoor fireplace'']),
      (''Water feature (fountain/pond/waterfall)'', [''water feature'', ''fountain'', ''pond'', ''waterfall'']),
      (''Putting green'', [''putting green'']),
      (''Sport court'', [''sport court'']),
      (''Pickleball'', [''pickleball'']),
      (''Play structure'', [''play structure'']),
      (''Dog run'', [''dog run'']),
      (''Pool (in-ground)'', [''pool'', ''in-ground pool'']),
      (''Pool (saltwater)'', [''saltwater pool'']),
      (''Pool (heated)'', [''heated pool'']),
      (''Lap pool'', [''lap pool'']),
      (''Spa/Hot tub'', [''spa'', ''hot tub'']),
      (''Sauna (dry)'', [''dry sauna'']),
      (''Sauna (infrared)'', [''infrared sauna''])]),
    (''Views & Orientation'', [
      (''Ocean view'', [''ocean view'']),
      (''Bay view'', [''bay view'']),
      (''City lights view'', [''city lights view'']),
      (''Mountain view'', [''mountain view'']),
      (''Canyon/Greenbelt view'', [''canyon view'', ''greenbelt view'']),
      (''Golf course view'', [''golf course view'']),
      (''Park view'', [''park view'']),
      (''East-facing (morning light)'', [''east-facing'']),
      (''West-facing (sunsets)'', [''west-facing'']),
      (''South-facing yard'', [''south-facing yard'']),
      (''Picture windows'', [''picture windows'']),
      (''Bay window'', [''bay window''])]),
    (''Property Type & Layout'', [
      (''Single-story (step-free)'', [''single story'', ''single level'', ''step-free'']),
      (''Two-story'', [''two story'']),
      (''Split-level'', [''split level'']),
      (''Open-concept'', [''open concept'', ''open floor plan'']),
      (''Great room'', [''great room'']),
      (''Vaulted ceilings'', [''vaulted ceilings'']),
      (''Double-height ceilings'', [''double-height ceilings'']),
      (''Skylights'', [''skylights'']),
      (''Formal dining'', [''formal dining'']),
      (''Den/Home office'', [''den'', ''home office'']),
      (''Loft'', [''loft'']),
      (''Media room/Home theater'', [''media room'', ''home theater'']),
      (''Game room'', [''game room'']),
      (''Gym'', [''home gym'']),
      (''Mudroom'', [''mudroom'']),
      (''ADU (permitted)'', [''adu'']),
      (''Guest house/Casita (permitted)'', [''guest house'', ''casita'']),
      (''Primary suite on main'', [''primary on main'']),
      (''Dual primary suites'', [''dual primary'']),
      (''Jack-and-Jill bath'', [''jack and jill'']),
      (''En-suite secondaries'', [''en-suite bedrooms'']),
      (''Built-ins'', [''built-ins'']),
      (''Window seats'', [''window seats'']),
      (''Wainscoting/Trim/Crown'', [''wainscoting'', ''crown molding'', ''trim work'']),
      (''Recessed lighting'', [''recessed lighting'']),
      (''Statement lighting'', [''statement lighting'']),
      (''Fireplace(s)'', [''fireplace''])]),
    (''Kitchen'', [
      (''Newly updated kitchen'', [''updated kitchen'', ''renovated kitchen'']),
      (''Quartz countertops'', [''quartz countertops'']),
      (''Granite countertops'', [''granite countertops'']),
      (''Quartzite countertops'', [''quartzite'']),
      (''Marble countertops'', [''marble'']),
      (''Butcher block counters'', [''butcher block'']),
      (''Soft-close cabinets'', [''soft close cabinets'']),
      (''Walk-in pantry'', [''walk-in pantry'']),
      (''Glass uppers'', [''glass uppers'']),
      (''Custom millwork'', [''custom cabinets'']),
      (''Island with seating'', [''kitchen island with seating'']),
      (''Waterfall edge'', [''waterfall island'']),
      (''Prep sink'', [''prep sink'']),
      (''Stainless appliances'', [''stainless steel appliances'']),
      (''Panel-ready/built-in fridge'', [''panel ready appliances'', ''built-in fridge'']),
      (''Gas range'', [''gas range'']),
      (''Professional range (36")'', [''36-inch range'', ''professional range'']),
      (''Professional range (48")'', [''48-inch range'', ''professional range'']),
      (''Double oven'', [''double oven'']),
      (''Convection/steam oven'', [''convection oven'', ''steam oven'']),
      (''Pot filler'', [''pot filler'']),
      (''Vented hood'', [''vented hood'']),
      (''Farmhouse sink'', [''farmhouse sink'']),
      (''Touch faucet'', [''touch faucet'']),
      (''Water filtration/RO'', [''water filtration'', ''reverse osmosis'']),
      (''Beverage center/coffee bar'', [''beverage center'', ''coffee bar'']),
      (''Wine fridge'', [''wine fridge'']),
      (''Microwave drawer'', [''microwave drawer'']),
      (''Designer backsplash'', [''designer backsplash''])]),
    (''Bathrooms'', [
      (''Double vanity'', [''double vanity'']),
      (''Soaking tub'', [''soaking tub'']),
      (''Separate shower'', [''separate shower'']),
      (''Walk-in/curbless shower'', [''walk-in shower'', ''curbless shower'']),
      (''Rain shower'', [''rain shower'']),
      (''Body sprays'', [''body sprays'']),
      (''Frameless glass'', [''frameless glass'']),
      (''Heated floors'', [''heated floors'']),
      (''Towel warmer'', [''towel warmer'']),
      (''Bidet/bidet seat'', [''bidet'', ''bidet seat'']),
      (''Smart mirror'', [''smart mirror'', ''backlit mirror'']),
      (''Smart lighting (bath)'', [''smart bath lighting'']),
      (''Linen closet'', [''linen closet'']),
      (''Updated powder room'', [''updated powder room'']),
      (''Skylight in bath'', [''bath skylight''])]),
    (''Bedrooms & Storage'', [
      (''Primary walk-in closet'', [''walk-in closet'']),
      (''Custom closet system'', [''custom closets'']),
      (''Primary balcony'', [''primary balcony'']),
      (''Primary retreat/sitting area'', [''primary retreat'']),
      (''Fireplace in primary'', [''primary fireplace'']),
      (''Large secondary bedrooms'', [''large secondary bedrooms'']),
      (''Guest suite'', [''guest suite'']),
      (''Nursery'', [''nursery'']),
      (''Coat closet'', [''coat closet'']),
      (''Linen storage'', [''linen storage'']),
      (''Attic storage'', [''attic storage'']),
      (''Shed/Outbuilding'', [''storage shed'', ''outbuilding'']),
      (''Overhead garage racks'', [''garage racks''])]),
    (''Laundry & Utility'', [
      (''Inside laundry room'', [''laundry room'']),
      (''Garage laundry'', [''garage laundry'']),
      (''Closet laundry'', [''closet laundry'']),
      (''Laundry sink'', [''laundry sink'']),
      (''Folding counter'', [''folding counter'']),
      (''Laundry cabinetry'', [''laundry cabinets'']),
      (''Hanging rack'', [''hanging rack'']),
      (''Gas hookups'', [''gas hookups'']),
      (''Electric hookups (220V)'', [''electric hookups'', ''220v laundry''])]),
    (''Flooring & Surfaces'', [
      (''Hardwood/Wood floors'', [''hardwood floors'', ''wood floors'']),
      (''Luxury vinyl plank (LVP)'', [''lvp flooring'']),
      (''Tile (porcelain/ceramic)'', [''tile floors'']),
      (''Stone (travertine/marble/slate)'', [''stone floors'', ''travertine'', ''marble'', ''slate'']),
      (''Polished concrete'', [''polished concrete'']),
      (''New carpet'', [''new carpet'']),
      (''Hypoallergenic flooring'', [''hypoallergenic flooring''])]),
    (''Systems, Energy & Smart Home'', [
      (''Solar (owned)'', [''owned solar'']),
      (''Solar (leased)'', [''leased solar'']),
      (''Battery backup'', [''battery backup'']),
      (''Generator transfer switch'', [''generator transfer switch'']),
      (''Dual-pane windows'', [''dual pane windows'']),
      (''Energy-efficient glazing'', [''energy efficient windows'']),
      (''Upgraded insulation (attic/crawl)'', [''attic insulation'', ''crawlspace insulation'']),
      (''Tankless water heater'', [''tankless water heater'']),
      (''Newer HVAC'', [''newer hvac'']),
      (''Multi-zone HVAC'', [''multi-zone hvac'']),
      (''Whole-house fan'', [''whole house fan'']),
      (''Smart thermostat'', [''smart thermostat'']),
      (''Video doorbell'', [''video doorbell'']),
      (''Security cameras'', [''security cameras'']),
      (''Smart locks'', [''smart locks'']),
      (''Smart lighting'', [''smart lighting'']),
      (''Wired Ethernet (CAT6)'', [''cat6 wiring'', ''ethernet wiring'']),
      (''Speaker pre-wire'', [''speaker prewire'']),
      (''Security system'', [''security system'']),
      (''Interior fire sprinklers'', [''fire sprinklers'']),
      (''Smart smoke detectors'', [''smart smoke detectors'']),
      (''Smart CO detectors'', [''smart co detectors'']),
      (''Fresh-air system/ERV'', [''erv'', ''fresh air system'']),
      (''Air purifier'', [''air purifier'']),
      (''Low-VOC finishes'', [''low voc finishes''])]),
    (''Community & HOA'', [
      (''Gated community'', [''gated community'']),
      (''Guard-gated community'', [''guard gated'']),
      (''Community pool'', [''community pool'']),
      (''Community spa'', [''community spa'']),
      (''Clubhouse'', [''clubhouse'']),
      (''Gym/Fitness center'', [''fitness center'']),
      (''Pickleball courts'', [''pickleball'']),
      (''Tennis courts'', [''tennis courts'']),
      (''Playground'', [''playground'']),
      (''Dog park'', [''dog park'']),
      (''Walking trails'', [''walking trails'']),
      (''Community garden'', [''community garden'']),
      (''Package lockers'', [''package lockers'']),
      (''Community RV lot'', [''community rv lot''])]),
    (''Location & Access'', [
      (''Near parks'', [''near parks'']),
      (''Near trails'', [''near trails'']),
      (''Near shopping'', [''near shopping'']),
      (''Near dining'', [''near dining'']),
      (''Near hospitals/medical'', [''near hospitals'', ''near medical'']),
      (''Easy freeway access'', [''easy freeway access'']),
      (''Near I-5'', [''near i-5'']),
      (''Near I-15'', [''near i-15'']),
      (''Near local schools (proximity)'', [''near local schools'']),
      (''Transit nearby'', [''near transit''])]),
    (''Specialty / Market Segments'', [
      (''Accessibility: zero-step entry'', [''zero step entry'', ''step-free'']),
      (''Accessibility: wide halls/doors'', [''wide hallways'', ''wide doors'']),
      (''Roll-in/curbless shower'', [''roll-in shower'', ''curbless shower'']),
      (''New construction/recent build'', [''new construction'', ''recent build'']),
      (''Craftsman style'', [''craftsman'']),
      (''Spanish/Mediterranean style'', [''spanish'', ''mediterranean'']),
      (''Mid-Century style'', [''mid-century'']),
      (''Modern/Contemporary'', [''modern'', ''contemporary'']),
      (''Farmhouse/Tudor'', [''farmhouse'', ''tudor'']),
      (''Income/ADU/lock-off'', [''adu potential'', ''separate entrance'', ''lock off'']),
      (''Well'', [''well'']),
      (''Septic (updated)'', [''septic updated'']),
      (''Workshop/Barn/Studio'', [''workshop'', ''barn'', ''artist studio''])])]\<close>

text \<open>
  The dict comprehension \<open>label_to_variants\<close>: a label that occurs twice keeps the
  variants of its last occurrence.
\<close>

definition label_to_variants :: "string \<Rightarrow> string list option" where
  "label_to_variants = map_of (rev (concat (map snd feature_taxonomy)))"

text \<open>The tokens one selected label contributes: its variants, or the label itself when it has none.\<close>

definition label_tokens :: "string \<Rightarrow> string list" where
  "label_tokens label =
     (let variants = (case label_to_variants label of None \<Rightarrow> [] | Some vs \<Rightarrow> vs)
      in if variants \<noteq> [] then variants else [label])"

text \<open>\<open>int(x)\<close> for a float: truncation towards zero.\<close>

definition int_of_float :: "rat \<Rightarrow> int" where
  "int_of_float q = (if q < 0 then \<lceil>q\<rceil> else \<lfloor>q\<rfloor>)"

text \<open>
  The list \<open>tokens\<close> of \<open>build_keywords_from_selections\<close> before it is cleaned.
  Formatting a float (\<open>f"{baths}"\<close>) is Python's \<open>repr\<close>, library code, and is the
  parameter \<open>float_str\<close>. The parameters that share a name with a field of
  \<open>ListingInput\<close> carry the suffix \<open>_arg\<close>.
\<close>

definition collect_tokens ::
  "(rat \<Rightarrow> string) \<Rightarrow> (string \<times> string list) list \<Rightarrow> rat option \<Rightarrow> rat option
     \<Rightarrow> int option \<Rightarrow> int option \<Rightarrow> int option \<Rightarrow> string \<Rightarrow> string list \<Rightarrow> string list" where
  "collect_tokens float_str selected beds_arg baths_arg sqft_arg lot_size_arg year_built_arg property_type_arg extra_keywords =
     concat (map label_tokens (concat (map snd selected)))
     @ (case beds_arg of None \<Rightarrow> [] | Some b \<Rightarrow> if b \<noteq> 0 then [str_int (int_of_float b) @ '' bedrooms''] else [])
     @ (case baths_arg of None \<Rightarrow> [] | Some b \<Rightarrow> [float_str b @ '' bathrooms''])
     @ (case sqft_arg of None \<Rightarrow> [] | Some n \<Rightarrow> if n \<noteq> 0 then [str_int n @ '' sqft''] else [])
     @ (case lot_size_arg of None \<Rightarrow> [] | Some n \<Rightarrow> if n \<noteq> 0 then [str_int n @ '' sf lot''] else [])
     @ (case year_built_arg of None \<Rightarrow> [] | Some n \<Rightarrow> if n \<noteq> 0 then [''built '' @ str_int n] else [])
     @ (if property_type_arg \<noteq> [] then [lower property_type_arg] else [])
     @ map strip (filter (\<lambda>k. strip k \<noteq> []) extra_keywords)"

text \<open>\<open>" ".join(str(t).split()).strip(",; ").lower()\<close>\<close>

definition normalize_token :: "string \<Rightarrow> string" where
  "normalize_token t = lower (strip_chars '',; '' (join '' '' (split t)))"

text \<open>The cleaning loop, with its two variables \<open>cleaned\<close> and \<open>seen\<close>.\<close>

fun clean_tokens :: "string list \<Rightarrow> string list \<Rightarrow> string set \<Rightarrow> string list" where
  "clean_tokens [] cleaned seen = cleaned"
| "clean_tokens (t # ts) cleaned seen =
     (let t2 = normalize_token t in
      if t2 \<noteq> [] \<and> t2 \<notin> seen then clean_tokens ts (cleaned @ [t2]) (insert t2 seen)
      else clean_tokens ts cleaned seen)"

definition build_keywords_from_selections ::
  "(rat \<Rightarrow> string) \<Rightarrow> (string \<times> string list) list \<Rightarrow> rat option \<Rightarrow> rat option
     \<Rightarrow> int option \<Rightarrow> int option \<Rightarrow> int option \<Rightarrow> string \<Rightarrow> string list \<Rightarrow> string list" where
  "build_keywords_from_selections float_str selected beds_arg baths_arg sqft_arg lot_size_arg year_built_arg property_type_arg extra_keywords =
     take 60 (clean_tokens
       (collect_tokens float_str selected beds_arg baths_arg sqft_arg lot_size_arg year_built_arg property_type_arg extra_keywords)
       [] {})"

text \<open>
  \<open>re.split(r"[,\n;]+", raw)\<close>: the pieces between maximal runs of separators. The
  second argument is the piece being read, the third says whether the previous
  character was a separator.
\<close>

definition is_separator :: "char \<Rightarrow> bool" where
  "is_separator c = (c = CHR '','' \<or> c = CHR 0x0A \<or> c = CHR '';'')"

fun re_split :: "string \<Rightarrow> string \<Rightarrow> bool \<Rightarrow> string list" where
  "re_split [] cur after_sep = [cur]"
| "re_split (c # cs) cur after_sep =
     (if is_separator c then (if after_sep then re_split cs [] True else cur # re_split cs [] True)
      else re_split cs (cur @ [c]) False)"

text \<open>The script's \<open>extra_keywords\<close> and \<open>auto_keywords\<close> (the value stored in \<open>li.keywords\<close>).\<close>

definition extra_keywords_of :: "string \<Rightarrow> string list" where
  "extra_keywords_of extra_kw_raw =
     map strip (filter (\<lambda>k. strip k \<noteq> []) (re_split extra_kw_raw [] False))"

definition auto_keywords ::
  "(rat \<Rightarrow> string) \<Rightarrow> (string \<times> string list) list \<Rightarrow> rat \<Rightarrow> rat
     \<Rightarrow> int \<Rightarrow> int \<Rightarrow> int \<Rightarrow> string \<Rightarrow> string \<Rightarrow> string list" where
  "auto_keywords float_str selections beds_in baths_in sqft_in lot_size_in year_built_in property_type_in extra_kw_raw =
     build_keywords_from_selections float_str selections (Some beds_in) (Some baths_in)
       (if sqft_in \<noteq> 0 then Some sqft_in else None)
       (if lot_size_in \<noteq> 0 then Some lot_size_in else None)
       (if year_built_in \<noteq> 0 then Some year_built_in else None)
       property_type_in []
     @ map lower (extra_keywords_of extra_kw_raw)"

text \<open>
  Python's \<open>repr\<close> of a non-negative float below \<open>10^16\<close> with at most one decimal
  digit, such as the multiples of 0.5 the form's number inputs step through: the
  integer part, a point and one digit (\<open>2.0\<close>, \<open>2.5\<close>, \<open>0.0\<close>).
\<close>

definition repr_one_decimal :: "rat \<Rightarrow> string" where
  "repr_one_decimal q = str_int \<lfloor>q\<rfloor> @ ''.'' @ str_int (\<lfloor>q * 10\<rfloor> mod 10)"

section \<open>Example inputs\<close>

definition example_listing :: ListingInput where
  "example_listing =
     \<lparr>address = ''12 Oak Lane'', city = ''San Diego'', state = ''CA'', zip_code = ''92101'',
      beds = Some 3, baths = Some 2, sqft = Some 1600, lot_size = Some 5000,
      year_built = Some 1995, property_type = ''Single Family'', price = Some 799000,
      listing_keywords = [''3 bedrooms'', ''2.0 bathrooms''], upgrades_bullets = [],
      neighborhood_notes = ''Near parks'', target_buyer_profile = ''Move-up buyers'',
      tone = ''Professional'', mls_char_limit = 1000, detail_level = ''Descriptive'',
      highlight_features = []\<rparr>"

text \<open>Drafts of 850 and 950 characters, and endpoints with a fixed reply.\<close>

definition short_draft :: dict where
  "short_draft = [(''mls_description'', JString (replicate 850 CHR ''a'')),
                  (''social_caption'', JString ''Welcome home.'')]"

definition fitting_draft :: dict where
  "fitting_draft = [(''mls_description'', JString (replicate 950 CHR ''a''))]"

definition terse_endpoint :: endpoint where
  \<open>terse_endpoint = (\<lambda>hist req. Inr (Some ''{"mls_description": " Still too short. "}''))\<close>

definition garbled_endpoint :: endpoint where
  "garbled_endpoint = (\<lambda>hist req. Inr (Some ''not json at all''))"

text \<open>A short draft and an endpoint whose revision is blank.\<close>

definition cozy_draft :: dict where
  "cozy_draft = [(''mls_description'', JString ''Cozy home near parks.'')]"

definition blank_endpoint :: endpoint where
  \<open>blank_endpoint = (\<lambda>hist req. Inr (Some ''{"mls_description": "   "}''))\<close>

text \<open>An endpoint whose reply holds the three other fields, and a result with all four.\<close>

definition complete_endpoint :: endpoint where
  \<open>complete_endpoint = (\<lambda>hist req. Inr (Some
     ''{"social_caption": "Come and see.", "instagram_hashtags": "#home #listing", "video_script_60s": "Welcome in."}''))\<close>

definition complete_result :: dict where
  "complete_result =
     [(''mls_description'', JString ''Cozy home near parks.''),
      (''social_caption'', JString ''Come and see.''),
      (''instagram_hashtags'', JString ''#home #listing''),
      (''video_script_60s'', JString ''Welcome in.'')]"

text \<open>Descriptions padded with trailing spaces: 905 and 1005 characters, 895 and 995 after trimming.\<close>

definition padded_draft :: dict where
  "padded_draft = [(''mls_description'', JString (replicate 895 CHR ''a'' @ replicate 10 CHR '' ''))]"

definition overlong_padded_draft :: dict where
  "overlong_padded_draft = [(''mls_description'', JString (replicate 995 CHR ''a'' @ replicate 10 CHR '' ''))]"

text \<open>Endpoints whose reply is not an object, whose revision is a number, and which fails.\<close>

definition array_endpoint :: endpoint where
  "array_endpoint = (\<lambda>hist req. Inr (Some ''[1]''))"

definition numeric_endpoint :: endpoint where
  \<open>numeric_endpoint = (\<lambda>hist req. Inr (Some ''{"mls_description": 5}''))\<close>

definition failing_endpoint :: endpoint where
  "failing_endpoint = (\<lambda>hist req. Inl TransportError)"

text \<open>An endpoint that answers the first request and garbles every later one.\<close>

definition flaky_endpoint :: endpoint where
  \<open>flaky_endpoint = (\<lambda>hist req. if hist = [] then Inr (Some ''{"social_caption": "Come and see."}'')
                                   else Inr (Some ''not json at all''))\<close>

section \<open>The minimum bound is the floor of nine tenths\<close>

lemma bit_length_le: "p < 2 ^ k \<Longrightarrow> bit_length p \<le> k"
proof (induction k arbitrary: p)
  case 0
  then show ?case by (simp add: bit_length.simps)
next
  case (Suc k)
  have "p div 2 < 2 ^ k" using Suc.prems by simp
  from Suc.IH[OF this] show ?case by (subst bit_length.simps) simp
qed

lemma bit_length_eq: "2 ^ k \<le> p \<Longrightarrow> p < 2 ^ Suc k \<Longrightarrow> bit_length p = Suc k"
proof (induction k arbitrary: p)
  case 0
  then have "p = 1" by simp
  then show ?case by (simp add: bit_length.simps)
next
  case (Suc k)
  have a: "2 ^ k \<le> p div 2" using Suc.prems by simp
  have b: "p div 2 < 2 ^ Suc k" using Suc.prems by simp
  have "(0::int) < 2 ^ Suc k" by simp
  then have "p > 0" using Suc.prems(1) by linarith
  with Suc.IH[OF a b] show ?case by (subst bit_length.simps) simp
qed



lemma round53_small: "p < 2 ^ 53 \<Longrightarrow> round53 p = p"
  using bit_length_le[of p 53] by (simp add: round53_def)

lemma round53_shift:
  assumes "2 ^ (52 + s) \<le> p" "p < 2 ^ (53 + s)" "s > 0"
  shows "round53 p = (if p mod 2 ^ s > 2 ^ (s - 1) \<or> (p mod 2 ^ s = 2 ^ (s - 1) \<and> odd (p div 2 ^ s))
                      then p div 2 ^ s + 1 else p div 2 ^ s) * 2 ^ s"
proof -
  have "bit_length p = Suc (52 + s)"
    using assms by (intro bit_length_eq) simp_all
  then show ?thesis using assms(3) by (simp add: round53_def Let_def)
qed

lemma small_lt: "n \<le> 1800 \<Longrightarrow> (n::int) < 2 ^ 1024"
proof -
  assume "n \<le> 1800"
  then have "n < 2 ^ 11" by simp
  also have "\<dots> \<le> (2::int) ^ 1024" by (rule power_increasing) simp_all
  finally show ?thesis .
qed



lemma trunc_eq:
  fixes R a :: int
  assumes "a * 9007199254740992 \<le> R" "R < (a + 1) * 9007199254740992"
  shows "R div 9007199254740992 = a"
  using assms by (intro int_div_pos_eq[where r = "R - a * 9007199254740992"]) simp_all


lemma min_chars_band:
  assumes n: "0 < n" "n \<le> 1800" and s: "0 < s" "s \<le> 11"
    and lo: "2 ^ (52 + s) \<le> n * double_0_9" and hi: "n * double_0_9 < 2 ^ (53 + s)"
  shows "min_chars n = Inr (9 * n div 10)"
proof -
  define p where "p = n * double_0_9"
  define d where "d = (2::int) ^ s"
  define q where "q = p div d"
  define R where "R = round53 p"
  define a where "a = 9 * n div 10"
  have dpos: "0 < d" by (simp add: d_def)
  have "d \<le> 2 ^ 11" unfolding d_def using s(2) by (intro power_increasing) simp_all
  then have dle: "d \<le> 2048" by simp
  have R: "R = (if p mod d > 2 ^ (s - 1) \<or> (p mod d = 2 ^ (s - 1) \<and> odd q) then q + 1 else q) * d"
    unfolding R_def d_def q_def using lo hi s(1) unfolding p_def[symmetric] by (rule round53_shift)
  have pd: "p = q * d + p mod d" by (simp add: q_def)
  have md: "0 \<le> p mod d" "p mod d < d" using dpos by simp_all
  have Rlo: "q * d \<le> R" using dpos by (simp add: R)
  have Rhi: "R \<le> q * d + d" using dpos by (simp add: R algebra_simps)
  have a1: "10 * a \<le> 9 * n" and a2: "9 * n < 10 * a + 10"
    unfolding a_def by linarith+
  have p10: "10 * p = 9007199254740992 * (9 * n) + 2 * n"
    by (simp add: p_def double_0_9_def)
  have Rp: "R \<le> p + d" using Rhi pd md by linarith
  have "9 * n \<le> 10 * a + 9" using a2 by simp
  then have "9007199254740992 * (9 * n) \<le> 9007199254740992 * (10 * a + 9)"
    by (simp only: mult_le_cancel_left_pos) 
  then have "10 * p \<le> 90071992547409920 * a + 81064793292668928 + 2 * n"
    using p10 by (simp add: algebra_simps)
  then have "10 * R < 10 * (a * 9007199254740992 + 9007199254740992)"
    using Rp dle n by simp
  then have upper: "R < (a + 1) * 9007199254740992"
    by (simp add: algebra_simps)
  have split53: "(9007199254740992::int) = 2 ^ (53 - s) * d"
  proof -
    have "(2::int) ^ (53 - s) * 2 ^ s = 2 ^ (53 - s + s)" by (simp only: power_add)
    also have "53 - s + s = 53" using s(2) by simp
    finally show ?thesis by (simp add: d_def)
  qed
  define k where "k = a * 2 ^ (53 - s)"
  have kd: "k * d = a * 9007199254740992"
    by (simp add: k_def split53[symmetric] mult.assoc)
  have "k * d \<le> p" using kd a1 p10 n by linarith
  then have "k * d div d \<le> p div d" by (rule zdiv_mono1) (rule dpos)
  then have "k \<le> q" using dpos by (simp add: q_def)
  then have "k * d \<le> q * d" using dpos by (simp add: mult_right_mono)
  then have lower: "a * 9007199254740992 \<le> R" using Rlo kd by linarith
  have tr: "R div 9007199254740992 = a" using lower upper by (rule trunc_eq)
  have f: "round53 \<bar>n\<bar> = n" using n by (simp add: round53_small)
  have g: "\<not> (2 ^ 1024 \<le> n)" using small_lt[OF n(2)] by simp
  have "(2::int) ^ 53 = 9007199254740992" by simp
  then show ?thesis
    unfolding min_chars_def f Let_def p_def[symmetric] R_def[symmetric]
    using g n(1) tr a_def by (simp del: power_numeral)
qed

lemma min_chars_slider_range:
  assumes "500 \<le> n" "n \<le> 1800"
  shows "min_chars n = Inr (9 * n div 10)"
proof -
  consider "n \<le> 568" | "569 \<le> n" "n \<le> 1137" | "1138 \<le> n" by linarith
  then show ?thesis
  proof cases
    case 1
    show ?thesis
      using assms 1 by (intro min_chars_band[where s = 9]) (simp_all add: double_0_9_def)
  next
    case 2
    show ?thesis
      using assms 2 by (intro min_chars_band[where s = 10]) (simp_all add: double_0_9_def)
  next
    case 3
    show ?thesis
      using assms 3 by (intro min_chars_band[where s = 11]) (simp_all add: double_0_9_def)
  qed
qed


lemma min_chars_1000: "min_chars 1000 = Inr 900"
  using min_chars_slider_range[of 1000] by simp



section \<open>Merging\<close>


lemma map_of_fold_update:
  "map_of (fold (\<lambda>(k, v) out. AList.update k v out) kvs original) = map_of original ++ map_of (rev kvs)"
proof (induction kvs arbitrary: original)
  case Nil
  show ?case by simp
next
  case (Cons kv kvs)
  obtain k v where kv: "kv = (k, v)" by (cases kv)
  have "map_of (fold (\<lambda>(k, v) out. AList.update k v out) (kv # kvs) original)
        = map_of (AList.update k v original) ++ map_of (rev kvs)"
    by (simp add: kv Cons.IH)
  also have "\<dots> = (map_of original)(k \<mapsto> v) ++ map_of (rev kvs)"
    by (simp only: update_conv')
  also have "\<dots> = map_of original ++ map_of (rev (kv # kvs))"
    by (simp add: kv)
  finally show ?case .
qed

lemma map_of_rev_distinct:
  "distinct (map fst kvs) \<Longrightarrow> map_of (rev kvs) = map_of kvs"
proof (induction kvs)
  case Nil
  show ?case by simp
next
  case (Cons kv kvs)
  obtain k v where kv: "kv = (k, v)" by (cases kv)
  have none: "map_of kvs k = None"
    using Cons.prems by (simp add: kv map_of_eq_None_iff)
  have ih: "map_of (rev kvs) = map_of kvs" using Cons by simp
  show ?case
  proof
    fix x
    show "map_of (rev (kv # kvs)) x = map_of (kv # kvs) x"
      using none by (cases "x = k") (simp_all add: kv ih map_add_def split: option.split)
  qed
qed

lemma keys_fold_update:
  "fst ` set original \<subseteq> fst ` set (fold (\<lambda>(k, v) out. AList.update k v out) kvs original)"
proof (induction kvs arbitrary: original)
  case Nil
  show ?case by simp
next
  case (Cons kv kvs)
  obtain k v where kv: "kv = (k, v)" by (cases kv)
  have "fst ` set original \<subseteq> fst ` set (AList.update k v original)"
    by (auto simp: dom_update)
  also have "\<dots> \<subseteq> fst ` set (fold (\<lambda>(k, v) out. AList.update k v out) kvs (AList.update k v original))"
    by (rule Cons.IH)
  finally show ?case by (simp add: kv)
qed

lemma merge_preserving_object:
  "merge_preserving original (JObject kvs) = Inr (fold (\<lambda>(k, v) out. AList.update k v out) kvs original)"
  by (cases kvs) (simp_all add: merge_preserving_def)

text \<open>
  Claim C6. Merging a dict of updates into the original gives a dict in which every key
  of the updates has the value from the updates, every other key has the value the
  original gives it, and every key of the original is still present; merging
  \<open>{"x": "old"}\<close> with \<open>{"y": "new"}\<close> gives \<open>{"x": "old", "y": "new"}\<close>. The
  keys of a Python dict are distinct.
\<close>

theorem merge_preserving_overwrites:
  assumes "distinct (map fst updates)"
  shows "(\<exists>out. merge_preserving original (JObject updates) = Inr out
           \<and> (\<forall>k v. map_of updates k = Some v \<longrightarrow> map_of out k = Some v)
           \<and> (\<forall>k. map_of updates k = None \<longrightarrow> map_of out k = map_of original k)
           \<and> fst ` set original \<subseteq> fst ` set out)
       \<and> merge_preserving [(''x'', JString ''old'')] (JObject [(''y'', JString ''new'')])
           = Inr [(''x'', JString ''old''), (''y'', JString ''new'')]"
proof -
  let ?out = "fold (\<lambda>(k, v) out. AList.update k v out) updates original"
  have m: "map_of ?out = map_of original ++ map_of updates"
    using assms by (simp add: map_of_fold_update map_of_rev_distinct)
  have "\<forall>k v. map_of updates k = Some v \<longrightarrow> map_of ?out k = Some v"
    by (simp add: m)
  moreover have "\<forall>k. map_of updates k = None \<longrightarrow> map_of ?out k = map_of original k"
    by (simp add: m map_add_def)
  moreover have "fst ` set original \<subseteq> fst ` set ?out"
    by (rule keys_fold_update)
  moreover have "merge_preserving [(''x'', JString ''old'')] (JObject [(''y'', JString ''new'')])
           = Inr [(''x'', JString ''old''), (''y'', JString ''new'')]"
    by (simp add: merge_preserving_def)
  ultimately show ?thesis
    by (simp only: merge_preserving_object) blast
qed

theorem merge_preserving_overwrites_witness:
  "distinct (map fst [(''y'', JString ''new'')])
   \<and> merge_preserving [(''x'', JString ''old'')] (JObject [(''y'', JString ''new'')])
       = Inr [(''x'', JString ''old''), (''y'', JString ''new'')]
   \<and> (\<exists>out. merge_preserving [(''x'', JString ''old'')] (JObject [(''y'', JString ''new'')]) = Inr out
         \<and> map_of out ''x'' = Some (JString ''old'') \<and> map_of out ''y'' = Some (JString ''new''))"
  using merge_preserving_overwrites[of "[(''y'', JString ''new'')]" "[(''x'', JString ''old'')]"]
  by simp

section \<open>The response parser falls back to the outermost braces\<close>














lemma chat_json_log:
  "\<exists>r. chat_json loads ep sys user temp hist
        = (r, hist @ [\<lparr>system_prompt = sys, user_prompt = user, temperature = temp\<rparr>])"
  by (simp add: chat_json_def chat_raw_def split: sum.split option.split)

lemma chat_json_reply:
  assumes "ep hist \<lparr>system_prompt = sys, user_prompt = user, temperature = temp\<rparr> = Inr (Some raw)"
  shows "chat_json loads ep sys user temp hist
           = (case safe_json_extract loads (Some raw) of Inl e \<Rightarrow> Inl e | Inr v \<Rightarrow> Inr (v, raw),
              hist @ [\<lparr>system_prompt = sys, user_prompt = user, temperature = temp\<rparr>])"
  using assms by (simp add: chat_json_def chat_raw_def split: sum.split)



text \<open>
  Claim C10. \<open>None\<close> is read as the empty text, and on the empty text the parser
  raises the decoder's parse error (no other error) and returns no value: the decoder
  rejects the empty text, and the text holds no brace to fall back on.
\<close>

theorem safe_json_extract_empty:
  "safe_json_extract loads None = safe_json_extract loads (Some [])
   \<and> (loads [] = Inl JSONDecodeError
      \<longrightarrow> safe_json_extract loads None = Inl JSONDecodeError
          \<and> safe_json_extract loads (Some []) = Inl JSONDecodeError)
   \<and> safe_json_extract json_loads None = Inl JSONDecodeError
   \<and> safe_json_extract json_loads (Some []) = Inl JSONDecodeError"
proof -
  have "json_loads [] = Inl JSONDecodeError" by code_simp
  then show ?thesis by (simp add: safe_json_extract_def)
qed

theorem safe_json_extract_empty_witness:
  "json_loads [] = Inl JSONDecodeError
   \<and> safe_json_extract json_loads None = Inl JSONDecodeError
   \<and> safe_json_extract json_loads (Some []) = Inl JSONDecodeError"
proof -
  have h: "json_loads [] = Inl JSONDecodeError" by code_simp
  show ?thesis using safe_json_extract_empty[of json_loads] h by simp
qed

section \<open>Length enforcement makes at most one request\<close>

lemma ensure_length_in_range:
  assumes "min_chars (mls_char_limit li) = Inr mn"
    and "text_or_empty (map_of data ''mls_description'') = Inr current"
    and "mn \<le> int (length current)" and "int (length current) \<le> mls_char_limit li"
  shows "ensure_length loads ep li data hist = (Inr data, hist)"
  using assms by (simp add: ensure_length_def)

lemma ensure_length_out_of_range:
  assumes "min_chars (mls_char_limit li) = Inr mn"
    and "text_or_empty (map_of data ''mls_description'') = Inr current"
    and "\<not> (mn \<le> int (length current) \<and> int (length current) \<le> mls_char_limit li)"
  shows "ensure_length loads ep li data hist =
     (case chat_json loads ep system_message
             (RevisionPrompt mn (mls_char_limit li) (length current) current)
             (revision_temperature li) hist of
        (Inl e, hist') \<Rightarrow> (Inl e, hist')
      | (Inr (revision_json, raw), hist') \<Rightarrow>
          (case json_get revision_json ''mls_description'' of
             Inl e \<Rightarrow> (Inl e, hist')
           | Inr x \<Rightarrow>
               (case text_or_empty x of
                  Inl e \<Rightarrow> (Inl e, hist')
                | Inr revised_desc \<Rightarrow>
                    if revised_desc \<noteq> []
                    then (Inr (AList.update ''mls_description'' (JString revised_desc) data), hist')
                    else (Inr data, hist'))))"
proof -
  have "(mn \<le> int (length current) \<and> int (length current) \<le> mls_char_limit li) = False"
    using assms(3) by simp
  then show ?thesis
    unfolding ensure_length_def Let_def assms(1) assms(2) by (simp only: sum.case if_False)
qed

lemma ensure_length_one_call:
  assumes "min_chars (mls_char_limit li) = Inr mn"
    and "text_or_empty (map_of data ''mls_description'') = Inr current"
    and "\<not> (mn \<le> int (length current) \<and> int (length current) \<le> mls_char_limit li)"
  shows "\<exists>r. ensure_length loads ep li data hist = (r, hist @ [revision_request li mn current])"
proof -
  obtain reply where c: "chat_json loads ep system_message
             (RevisionPrompt mn (mls_char_limit li) (length current) current)
             (revision_temperature li) hist = (reply, hist @ [revision_request li mn current])"
    using chat_json_log[of loads ep system_message _ "revision_temperature li" hist]
    unfolding revision_request_def by blast
  show ?thesis
    unfolding ensure_length_out_of_range[OF assms] c
    by (simp split: sum.split prod.split)
qed

lemma ensure_length_result:
  assumes "ensure_length loads ep li data hist = (Inr data', hist')"
  shows "data' = data \<or> (\<exists>revised. revised \<noteq> [] \<and> data' = AList.update ''mls_description'' (JString revised) data)"
  using assms unfolding ensure_length_def Let_def
  by (auto split: sum.splits prod.splits if_splits)

lemma strip_plain:
  assumes "s \<noteq> []" "\<not> isspace (hd s)" "\<not> isspace (last s)"
  shows "strip s = s"
proof -
  have a: "dropWhile isspace s = s" using assms(1,2) by (cases s) simp_all
  have "rev s \<noteq> []" "\<not> isspace (hd (rev s))" using assms(1,3) by (simp_all add: hd_rev)
  then have "dropWhile isspace (rev s) = rev s" by (cases "rev s") simp_all
  then show ?thesis by (simp add: strip_def a)
qed

lemma strip_replicate_a: "strip (replicate (Suc n) CHR ''a'') = replicate (Suc n) CHR ''a''"
proof -
  have "\<not> isspace CHR ''a''" by (simp add: isspace_def)
  then show ?thesis
    by (intro strip_plain) (simp_all del: replicate_Suc add: hd_replicate last_replicate)
qed

lemma current_short: "text_or_empty (map_of short_draft ''mls_description'') = Inr (replicate 850 CHR ''a'')"
proof -
  have "(850::nat) = Suc 849" by simp
  then have "strip (replicate 850 CHR ''a'') = replicate 850 CHR ''a''"
    by (simp only: strip_replicate_a)
  then show ?thesis by (simp add: short_draft_def text_or_empty_def)
qed

lemma terse_run: "ensure_length json_loads terse_endpoint example_listing short_draft []
   = (Inr [(''mls_description'', JString ''Still too short.''), (''social_caption'', JString ''Welcome home.'')],
      [revision_request example_listing 900 (replicate 850 CHR ''a'')])"
proof -
  have r: \<open>safe_json_extract json_loads (Some ''{"mls_description": " Still too short. "}'')
      = Inr (JObject [(''mls_description'', JString '' Still too short. '')])\<close>
    by code_simp
  have s: "strip '' Still too short. '' = ''Still too short.''" by code_simp
  have m: "min_chars (mls_char_limit example_listing) = Inr 900"
    by (simp add: example_listing_def min_chars_1000)
  have o: "\<not> (900 \<le> int (length (replicate 850 CHR ''a'')) \<and> int (length (replicate 850 CHR ''a'')) \<le> mls_char_limit example_listing)"
    by simp
  show ?thesis
    unfolding ensure_length_out_of_range[OF m current_short o]
    by (simp add: chat_json_def chat_raw_def terse_endpoint_def r json_get_def text_or_empty_def s
        revision_request_def short_draft_def example_listing_def)
qed

lemma current_fitting: "text_or_empty (map_of fitting_draft ''mls_description'') = Inr (replicate 950 CHR ''a'')"
proof -
  have "(950::nat) = Suc 949" by simp
  then have "strip (replicate 950 CHR ''a'') = replicate 950 CHR ''a''"
    by (simp only: strip_replicate_a)
  then show ?thesis by (simp add: fitting_draft_def text_or_empty_def)
qed

lemma min_chars_example: "min_chars (mls_char_limit example_listing) = Inr 900"
  by (simp add: example_listing_def min_chars_1000)

lemma strip_padded:
  "strip (replicate (Suc n) CHR ''a'' @ replicate m CHR '' '') = replicate (Suc n) CHR ''a''"
proof -
  have a: "\<not> isspace CHR ''a''" and b: "isspace CHR '' ''" by (simp_all add: isspace_def)
  have 1: "dropWhile isspace (replicate (Suc n) CHR ''a'' @ replicate m CHR '' '')
             = replicate (Suc n) CHR ''a'' @ replicate m CHR '' ''"
    using a by simp
  have 2: "rev (replicate (Suc n) CHR ''a'' @ replicate m CHR '' '')
             = replicate m CHR '' '' @ replicate (Suc n) CHR ''a''"
    by (simp only: rev_append rev_replicate)
  have 3: "dropWhile isspace (replicate m CHR '' '' @ replicate (Suc n) CHR ''a'')
             = dropWhile isspace (replicate (Suc n) CHR ''a'')"
    using b by (intro dropWhile_append2) simp
  have 4: "dropWhile isspace (replicate (Suc n) CHR ''a'') = replicate (Suc n) CHR ''a''"
    using a by simp
  show ?thesis
    unfolding strip_def 1 2 3 4 by (simp only: rev_replicate)
qed

lemma current_padded:
  "text_or_empty (map_of padded_draft ''mls_description'') = Inr (replicate 895 CHR ''a'')"
proof -
  have "(895::nat) = Suc 894" by simp
  then have "strip (replicate 895 CHR ''a'' @ replicate 10 CHR '' '') = replicate 895 CHR ''a''"
    by (simp only: strip_padded)
  then show ?thesis by (simp add: padded_draft_def text_or_empty_def)
qed

lemma current_overlong_padded:
  "text_or_empty (map_of overlong_padded_draft ''mls_description'') = Inr (replicate 995 CHR ''a'')"
proof -
  have "(995::nat) = Suc 994" by simp
  then have "strip (replicate 995 CHR ''a'' @ replicate 10 CHR '' '') = replicate 995 CHR ''a''"
    by (simp only: strip_padded)
  then show ?thesis by (simp add: overlong_padded_draft_def text_or_empty_def)
qed

text \<open>
  Claim C2 as stated (the length of the description decides) fails on a description
  with surrounding whitespace, because the stage measures the trimmed text. With a
  limit of 1000, a description of 905 characters that ends in ten spaces is within the
  bounds and still makes a revision request, and one of 1005 characters that ends in
  ten spaces is outside the bounds and makes none.
\<close>

theorem ensure_length_measures_trimmed_text:
  "mls_char_limit example_listing = 1000
   \<and> min_chars (mls_char_limit example_listing) = Inr 900
   \<and> map_of padded_draft ''mls_description''
       = Some (JString (replicate 895 CHR ''a'' @ replicate 10 CHR '' ''))
   \<and> length (replicate 895 CHR ''a'' @ replicate 10 CHR '' '') = 905
   \<and> ensure_length json_loads terse_endpoint example_listing padded_draft []
       = (Inr [(''mls_description'', JString ''Still too short.'')],
          [revision_request example_listing 900 (replicate 895 CHR ''a'')])
   \<and> map_of overlong_padded_draft ''mls_description''
       = Some (JString (replicate 995 CHR ''a'' @ replicate 10 CHR '' ''))
   \<and> length (replicate 995 CHR ''a'' @ replicate 10 CHR '' '') = 1005
   \<and> ensure_length json_loads terse_endpoint example_listing overlong_padded_draft []
       = (Inr overlong_padded_draft, [])"
proof -
  have l: "mls_char_limit example_listing = 1000" by (simp add: example_listing_def)
  have r: \<open>safe_json_extract json_loads (Some ''{"mls_description": " Still too short. "}'')
      = Inr (JObject [(''mls_description'', JString '' Still too short. '')])\<close>
    by code_simp
  have s: "strip '' Still too short. '' = ''Still too short.''" by code_simp
  have o: "\<not> (900 \<le> int (length (replicate 895 CHR ''a'')) \<and> int (length (replicate 895 CHR ''a'')) \<le> mls_char_limit example_listing)"
    by simp
  have 1: "ensure_length json_loads terse_endpoint example_listing padded_draft []
       = (Inr [(''mls_description'', JString ''Still too short.'')],
          [revision_request example_listing 900 (replicate 895 CHR ''a'')])"
    unfolding ensure_length_out_of_range[OF min_chars_example current_padded o]
    by (simp add: chat_json_def chat_raw_def terse_endpoint_def r json_get_def text_or_empty_def s
        revision_request_def padded_draft_def example_listing_def)
  have 2: "ensure_length json_loads terse_endpoint example_listing overlong_padded_draft []
       = (Inr overlong_padded_draft, [])"
    by (rule ensure_length_in_range[OF min_chars_example current_overlong_padded]) (simp_all add: l)
  have 3: "map_of padded_draft ''mls_description''
       = Some (JString (replicate 895 CHR ''a'' @ replicate 10 CHR '' ''))"
    by (simp add: padded_draft_def)
  have 4: "map_of overlong_padded_draft ''mls_description''
       = Some (JString (replicate 995 CHR ''a'' @ replicate 10 CHR '' ''))"
    by (simp add: overlong_padded_draft_def)
  have 5: "length (replicate 895 CHR ''a'' @ replicate 10 CHR '' '') = 905" by simp
  have 6: "length (replicate 995 CHR ''a'' @ replicate 10 CHR '' '') = 1005" by simp
  show ?thesis
    by (intro conjI) (rule l, rule min_chars_example, rule 3, rule 5, rule 1, rule 4, rule 6, rule 2)
qed

lemma text_or_empty_string:
  "text_or_empty (Some (JString s)) = Inr (strip s)"
  by (cases "s = []") (simp_all add: text_or_empty_def strip_def)

text \<open>
  Claim C2, as the code has it. \<open>current\<close> is the description the stage measures:
  the value under \<open>mls_description\<close>, read as empty when absent or falsy, and
  trimmed of surrounding whitespace. When the length of \<open>current\<close> lies within the
  bounds, the data is returned unchanged and no request is made. When it lies outside,
  the log grows by exactly one revision request whatever the endpoint replies and
  whatever becomes of the reply, so there is no second attempt. With a limit of 1000
  the lower bound is 900, a trimmed description of length 850 makes one request and
  one of length 950 makes none.
\<close>

theorem ensure_length_single_revision:
  assumes "min_chars (mls_char_limit li) = Inr mn"
    and "text_or_empty (map_of data ''mls_description'') = Inr current"
  shows "(mn \<le> int (length current) \<and> int (length current) \<le> mls_char_limit li
            \<longrightarrow> ensure_length loads ep li data hist = (Inr data, hist))
       \<and> (\<not> (mn \<le> int (length current) \<and> int (length current) \<le> mls_char_limit li)
            \<longrightarrow> (\<exists>r. ensure_length loads ep li data hist = (r, hist @ [revision_request li mn current])))
       \<and> (mls_char_limit li = 1000
            \<longrightarrow> mn = 900
              \<and> (length current = 850
                   \<longrightarrow> (\<exists>r. ensure_length loads ep li data hist = (r, hist @ [revision_request li mn current])))
              \<and> (length current = 950 \<longrightarrow> ensure_length loads ep li data hist = (Inr data, hist)))
       \<and> (\<forall>s. map_of data ''mls_description'' = Some (JString s) \<longrightarrow> current = strip s)
       \<and> (map_of data ''mls_description'' = None \<longrightarrow> current = [])"
proof -
  have a: "ensure_length loads ep li data hist = (Inr data, hist)"
    if "mn \<le> int (length current)" "int (length current) \<le> mls_char_limit li"
    using assms that by (rule ensure_length_in_range)
  have b: "\<exists>r. ensure_length loads ep li data hist = (r, hist @ [revision_request li mn current])"
    if "\<not> (mn \<le> int (length current) \<and> int (length current) \<le> mls_char_limit li)"
    using assms that by (rule ensure_length_one_call)
  have c: "mn = 900" if "mls_char_limit li = 1000"
    using assms(1) that by (simp add: min_chars_1000)
  show ?thesis
  proof (intro conjI impI)
    assume "mn \<le> int (length current) \<and> int (length current) \<le> mls_char_limit li"
    then show "ensure_length loads ep li data hist = (Inr data, hist)" using a by simp
  next
    assume "\<not> (mn \<le> int (length current) \<and> int (length current) \<le> mls_char_limit li)"
    then show "\<exists>r. ensure_length loads ep li data hist = (r, hist @ [revision_request li mn current])"
      by (rule b)
  next
    assume "mls_char_limit li = 1000"
    then show "mn = 900" by (rule c)
  next
    assume "mls_char_limit li = 1000" "length current = 850"
    then show "\<exists>r. ensure_length loads ep li data hist = (r, hist @ [revision_request li mn current])"
      using c by (intro b) simp
  next
    assume "mls_char_limit li = 1000" "length current = 950"
    then show "ensure_length loads ep li data hist = (Inr data, hist)"
      using c by (intro a) simp_all
  next
    show "\<forall>s. map_of data ''mls_description'' = Some (JString s) \<longrightarrow> current = strip s"
    proof (intro allI impI)
      fix s assume "map_of data ''mls_description'' = Some (JString s)"
      with assms(2) show "current = strip s" by (simp add: text_or_empty_string)
    qed
  next
    assume "map_of data ''mls_description'' = None"
    then show "current = []" using assms(2) by (simp add: text_or_empty_def)
  qed
qed

theorem ensure_length_single_revision_witness:
  "min_chars (mls_char_limit example_listing) = Inr 900
   \<and> text_or_empty (map_of short_draft ''mls_description'') = Inr (replicate 850 CHR ''a'')
   \<and> text_or_empty (map_of fitting_draft ''mls_description'') = Inr (replicate 950 CHR ''a'')
   \<and> (\<exists>r. ensure_length json_loads terse_endpoint example_listing short_draft []
             = (r, [revision_request example_listing 900 (replicate 850 CHR ''a'')]))
   \<and> ensure_length json_loads terse_endpoint example_listing fitting_draft [] = (Inr fitting_draft, [])"
proof -
  have l: "mls_char_limit example_listing = 1000" by (simp add: example_listing_def)
  show ?thesis
    using ensure_length_single_revision[OF min_chars_example current_short, of json_loads terse_endpoint "[]"]
      ensure_length_single_revision[OF min_chars_example current_fitting, of json_loads terse_endpoint "[]"]
      min_chars_example current_short current_fitting l
    by simp
qed

text \<open>
  Claim C9. Every mapping the stage returns gives each key other than
  \<open>mls_description\<close> the value the input gave it, and has every key of the input.
\<close>

theorem ensure_length_frame:
  assumes "ensure_length loads ep li data hist = (Inr data', hist')"
  shows "(\<forall>k. k \<noteq> ''mls_description'' \<longrightarrow> map_of data' k = map_of data k)
       \<and> fst ` set data \<subseteq> fst ` set data'"
proof -
  from ensure_length_result[OF assms] show ?thesis
  proof
    assume "data' = data"
    then show ?thesis by simp
  next
    assume "\<exists>revised. revised \<noteq> [] \<and> data' = AList.update ''mls_description'' (JString revised) data"
    then obtain revised where "data' = AList.update ''mls_description'' (JString revised) data" by blast
    then show ?thesis by (auto simp: update_conv' dom_update)
  qed
qed

theorem ensure_length_frame_witness:
  "ensure_length json_loads terse_endpoint example_listing short_draft []
     = (Inr [(''mls_description'', JString ''Still too short.''), (''social_caption'', JString ''Welcome home.'')],
        [revision_request example_listing 900 (replicate 850 CHR ''a'')])
   \<and> map_of [(''mls_description'', JString ''Still too short.''), (''social_caption'', JString ''Welcome home.'')] ''social_caption''
       = map_of short_draft ''social_caption''
   \<and> fst ` set short_draft
       \<subseteq> fst ` set [(''mls_description'', JString ''Still too short.''), (''social_caption'', JString ''Welcome home.'')]"
proof -
  let ?out = "[(''mls_description'', JString ''Still too short.''), (''social_caption'', JString ''Welcome home.'')]"
  have f: "\<forall>k. k \<noteq> ''mls_description'' \<longrightarrow> map_of ?out k = map_of short_draft k"
    using ensure_length_frame[OF terse_run] by (rule conjunct1)
  have g: "fst ` set short_draft \<subseteq> fst ` set ?out"
    using ensure_length_frame[OF terse_run] by (rule conjunct2)
  have n: "''social_caption'' \<noteq> ''mls_description''" by simp
  have h: "map_of ?out ''social_caption'' = map_of short_draft ''social_caption''"
    using f[rule_format, OF n] .
  show ?thesis by (intro conjI) (rule terse_run, rule h, rule g)
qed

section \<open>What length enforcement does with the reply\<close>

lemma current_cozy: "text_or_empty (map_of cozy_draft ''mls_description'') = Inr ''Cozy home near parks.''"
proof -
  have "strip ''Cozy home near parks.'' = ''Cozy home near parks.''" by code_simp
  then show ?thesis by (simp add: cozy_draft_def text_or_empty_def)
qed

text \<open>
  Claim C5 as stated (the stage never raises) fails. When the endpoint's reply to the
  revision request is \<open>not json at all\<close>, the decoder's error leaves
  \<open>ensure_length\<close> after the one request.
\<close>

theorem ensure_length_raises_on_garbled_reply:
  "ensure_length json_loads garbled_endpoint example_listing cozy_draft []
     = (Inl JSONDecodeError, [revision_request example_listing 900 ''Cozy home near parks.''])"
proof -
  have r: "safe_json_extract json_loads (Some ''not json at all'') = Inl JSONDecodeError"
    by code_simp
  have o: "\<not> (900 \<le> int (length ''Cozy home near parks.'') \<and> int (length ''Cozy home near parks.'') \<le> mls_char_limit example_listing)"
    by simp
  show ?thesis
    unfolding ensure_length_out_of_range[OF min_chars_example current_cozy o]
    by (simp add: chat_json_def chat_raw_def garbled_endpoint_def r revision_request_def)
qed

text \<open>
  Claim C5, as the code has it. Out of range, the stage sends its one request and then
  follows the reply. It raises to the caller the error of a failed call, the decoder's
  error on a reply that cannot be decoded, and \<open>AttributeError\<close> on a reply that
  is not an object or whose \<open>mls_description\<close> is truthy and not a string. A reply
  that is an object whose \<open>mls_description\<close> is a string, non-empty after trimming,
  overwrites the description with the trimmed string. A reply object whose
  \<open>mls_description\<close> is absent, falsy or blank keeps the data as it was. Whatever
  the reply, a mapping that is returned is the input or the input with a non-empty
  description: a draft is never replaced by an empty one.
\<close>

theorem ensure_length_best_effort:
  assumes "min_chars (mls_char_limit li) = Inr mn"
    and "text_or_empty (map_of data ''mls_description'') = Inr current"
    and "\<not> (mn \<le> int (length current) \<and> int (length current) \<le> mls_char_limit li)"
    and "chat_json loads ep system_message (RevisionPrompt mn (mls_char_limit li) (length current) current)
           (revision_temperature li) hist = (reply, hist')"
  shows "(\<forall>e. reply = Inl e \<longrightarrow> ensure_length loads ep li data hist = (Inl e, hist'))
       \<and> (\<forall>kvs raw s. reply = Inr (JObject kvs, raw) \<and> map_of kvs ''mls_description'' = Some (JString s)
              \<and> strip s \<noteq> []
            \<longrightarrow> ensure_length loads ep li data hist
                  = (Inr (AList.update ''mls_description'' (JString (strip s)) data), hist'))
       \<and> (\<forall>kvs raw. reply = Inr (JObject kvs, raw) \<and> text_or_empty (map_of kvs ''mls_description'') = Inr []
            \<longrightarrow> ensure_length loads ep li data hist = (Inr data, hist'))
       \<and> (\<forall>data'. ensure_length loads ep li data hist = (Inr data', hist')
            \<longrightarrow> data' = data
                \<or> (\<exists>revised. revised \<noteq> [] \<and> data' = AList.update ''mls_description'' (JString revised) data))
       \<and> hist' = hist @ [revision_request li mn current]
       \<and> (\<forall>v raw. reply = Inr (v, raw) \<and> (\<forall>kvs. v \<noteq> JObject kvs)
            \<longrightarrow> ensure_length loads ep li data hist = (Inl AttributeError, hist'))
       \<and> (\<forall>kvs raw x. reply = Inr (JObject kvs, raw) \<and> map_of kvs ''mls_description'' = Some x
              \<and> truthy x \<and> (\<forall>s. x \<noteq> JString s)
            \<longrightarrow> ensure_length loads ep li data hist = (Inl AttributeError, hist'))
       \<and> (\<forall>kvs raw. reply = Inr (JObject kvs, raw)
              \<and> (map_of kvs ''mls_description'' = None
                  \<or> (\<exists>x. map_of kvs ''mls_description'' = Some x \<and> \<not> truthy x)
                  \<or> (\<exists>s. map_of kvs ''mls_description'' = Some (JString s) \<and> strip s = []))
            \<longrightarrow> ensure_length loads ep li data hist = (Inr data, hist'))
       \<and> (\<forall>e. ep hist (revision_request li mn current) = Inl e \<longrightarrow> reply = Inl e)
       \<and> (\<forall>content e. ep hist (revision_request li mn current) = Inr content
              \<and> safe_json_extract loads (Some (case content of None \<Rightarrow> [] | Some s \<Rightarrow> s)) = Inl e
            \<longrightarrow> reply = Inl e)
       \<and> (\<forall>content v. ep hist (revision_request li mn current) = Inr content
              \<and> safe_json_extract loads (Some (case content of None \<Rightarrow> [] | Some s \<Rightarrow> s)) = Inr v
            \<longrightarrow> reply = Inr (v, case content of None \<Rightarrow> [] | Some s \<Rightarrow> s))"
proof (intro conjI allI impI)
  fix e assume "reply = Inl e"
  then show "ensure_length loads ep li data hist = (Inl e, hist')"
    unfolding ensure_length_out_of_range[OF assms(1-3)] assms(4) by simp
next
  fix kvs raw s
  assume "reply = Inr (JObject kvs, raw) \<and> map_of kvs ''mls_description'' = Some (JString s) \<and> strip s \<noteq> []"
  then show "ensure_length loads ep li data hist
                  = (Inr (AList.update ''mls_description'' (JString (strip s)) data), hist')"
    unfolding ensure_length_out_of_range[OF assms(1-3)] assms(4)
    by (cases "s = []") (simp_all add: json_get_def text_or_empty_def strip_def)
next
  fix kvs raw
  assume "reply = Inr (JObject kvs, raw) \<and> text_or_empty (map_of kvs ''mls_description'') = Inr []"
  then show "ensure_length loads ep li data hist = (Inr data, hist')"
    unfolding ensure_length_out_of_range[OF assms(1-3)] assms(4)
    by (simp add: json_get_def)
next
  fix data' assume "ensure_length loads ep li data hist = (Inr data', hist')"
  then show "data' = data
                \<or> (\<exists>revised. revised \<noteq> [] \<and> data' = AList.update ''mls_description'' (JString revised) data)"
    by (rule ensure_length_result)
next
  show "hist' = hist @ [revision_request li mn current]"
    using assms(4) chat_json_log[of loads ep system_message
        "RevisionPrompt mn (mls_char_limit li) (length current) current" "revision_temperature li" hist]
    by (simp add: revision_request_def)
next
  fix v raw assume h: "reply = Inr (v, raw) \<and> (\<forall>kvs. v \<noteq> JObject kvs)"
  then have "json_get v ''mls_description'' = Inl AttributeError"
    by (cases v) (simp_all add: json_get_def)
  then show "ensure_length loads ep li data hist = (Inl AttributeError, hist')"
    unfolding ensure_length_out_of_range[OF assms(1-3)] assms(4) using h by simp
next
  fix kvs raw x
  assume h: "reply = Inr (JObject kvs, raw) \<and> map_of kvs ''mls_description'' = Some x
              \<and> truthy x \<and> (\<forall>s. x \<noteq> JString s)"
  then have "text_or_empty (Some x) = Inl AttributeError"
    by (cases x) (simp_all add: text_or_empty_def)
  then show "ensure_length loads ep li data hist = (Inl AttributeError, hist')"
    unfolding ensure_length_out_of_range[OF assms(1-3)] assms(4) using h by (simp add: json_get_def)
next
  fix kvs raw
  assume h: "reply = Inr (JObject kvs, raw)
              \<and> (map_of kvs ''mls_description'' = None
                  \<or> (\<exists>x. map_of kvs ''mls_description'' = Some x \<and> \<not> truthy x)
                  \<or> (\<exists>s. map_of kvs ''mls_description'' = Some (JString s) \<and> strip s = []))"
  then have "text_or_empty (map_of kvs ''mls_description'') = Inr []"
    by (auto simp: text_or_empty_def text_or_empty_string)
  then show "ensure_length loads ep li data hist = (Inr data, hist')"
    unfolding ensure_length_out_of_range[OF assms(1-3)] assms(4) using h by (simp add: json_get_def)
next
  fix e assume "ep hist (revision_request li mn current) = Inl e"
  then show "reply = Inl e"
    using assms(4) by (simp add: chat_json_def chat_raw_def revision_request_def)
next
  fix content e
  assume "ep hist (revision_request li mn current) = Inr content
              \<and> safe_json_extract loads (Some (case content of None \<Rightarrow> [] | Some s \<Rightarrow> s)) = Inl e"
  then show "reply = Inl e"
    using assms(4) by (simp add: chat_json_def chat_raw_def revision_request_def)
next
  fix content v
  assume "ep hist (revision_request li mn current) = Inr content
              \<and> safe_json_extract loads (Some (case content of None \<Rightarrow> [] | Some s \<Rightarrow> s)) = Inr v"
  then show "reply = Inr (v, case content of None \<Rightarrow> [] | Some s \<Rightarrow> s)"
    using assms(4) by (simp add: chat_json_def chat_raw_def revision_request_def)
qed

lemma terse_reply:
  \<open>chat_json json_loads terse_endpoint system_message
      (RevisionPrompt 900 (mls_char_limit example_listing) (length ''Cozy home near parks.'') ''Cozy home near parks.'')
      (revision_temperature example_listing) []
    = (Inr (JObject [(''mls_description'', JString '' Still too short. '')],
            ''{"mls_description": " Still too short. "}''),
       [revision_request example_listing 900 ''Cozy home near parks.''])\<close>
proof -
  have r: \<open>safe_json_extract json_loads (Some ''{"mls_description": " Still too short. "}'')
      = Inr (JObject [(''mls_description'', JString '' Still too short. '')])\<close>
    by code_simp
  show ?thesis
    by (simp add: chat_json_def chat_raw_def terse_endpoint_def r revision_request_def)
qed

lemma blank_reply:
  \<open>chat_json json_loads blank_endpoint system_message
      (RevisionPrompt 900 (mls_char_limit example_listing) (length ''Cozy home near parks.'') ''Cozy home near parks.'')
      (revision_temperature example_listing) []
    = (Inr (JObject [(''mls_description'', JString ''   '')], ''{"mls_description": "   "}''),
       [revision_request example_listing 900 ''Cozy home near parks.''])\<close>
proof -
  have r: \<open>safe_json_extract json_loads (Some ''{"mls_description": "   "}'')
      = Inr (JObject [(''mls_description'', JString ''   '')])\<close>
    by code_simp
  show ?thesis
    by (simp add: chat_json_def chat_raw_def blank_endpoint_def r revision_request_def)
qed

lemma array_reply:
  "chat_json json_loads array_endpoint system_message
      (RevisionPrompt 900 (mls_char_limit example_listing) (length ''Cozy home near parks.'') ''Cozy home near parks.'')
      (revision_temperature example_listing) []
    = (Inr (JArray [JInt 1], ''[1]''), [revision_request example_listing 900 ''Cozy home near parks.''])"
proof -
  have r: "safe_json_extract json_loads (Some ''[1]'') = Inr (JArray [JInt 1])" by code_simp
  show ?thesis
    by (simp add: chat_json_def chat_raw_def array_endpoint_def r revision_request_def)
qed

lemma numeric_reply:
  \<open>chat_json json_loads numeric_endpoint system_message
      (RevisionPrompt 900 (mls_char_limit example_listing) (length ''Cozy home near parks.'') ''Cozy home near parks.'')
      (revision_temperature example_listing) []
    = (Inr (JObject [(''mls_description'', JInt 5)], ''{"mls_description": 5}''),
       [revision_request example_listing 900 ''Cozy home near parks.''])\<close>
proof -
  have r: \<open>safe_json_extract json_loads (Some ''{"mls_description": 5}'')
      = Inr (JObject [(''mls_description'', JInt 5)])\<close>
    by code_simp
  show ?thesis
    by (simp add: chat_json_def chat_raw_def numeric_endpoint_def r revision_request_def)
qed

lemma failing_reply:
  "chat_json json_loads failing_endpoint system_message
      (RevisionPrompt 900 (mls_char_limit example_listing) (length ''Cozy home near parks.'') ''Cozy home near parks.'')
      (revision_temperature example_listing) []
    = (Inl TransportError, [revision_request example_listing 900 ''Cozy home near parks.''])"
  by (simp add: chat_json_def chat_raw_def failing_endpoint_def revision_request_def)

lemma cozy_out_of_range:
  "\<not> (900 \<le> int (length ''Cozy home near parks.'')
          \<and> int (length ''Cozy home near parks.'') \<le> mls_char_limit example_listing)"
  by simp

theorem ensure_length_best_effort_witness:
  "min_chars (mls_char_limit example_listing) = Inr 900
   \<and> text_or_empty (map_of cozy_draft ''mls_description'') = Inr ''Cozy home near parks.''
   \<and> \<not> (900 \<le> int (length ''Cozy home near parks.'')
          \<and> int (length ''Cozy home near parks.'') \<le> mls_char_limit example_listing)
   \<and> ensure_length json_loads terse_endpoint example_listing cozy_draft []
       = (Inr (AList.update ''mls_description'' (JString (strip '' Still too short. '')) cozy_draft),
          [revision_request example_listing 900 ''Cozy home near parks.''])
   \<and> strip '' Still too short. '' = ''Still too short.''
   \<and> ensure_length json_loads blank_endpoint example_listing cozy_draft []
       = (Inr cozy_draft, [revision_request example_listing 900 ''Cozy home near parks.''])
   \<and> ensure_length json_loads array_endpoint example_listing cozy_draft []
       = (Inl AttributeError, [revision_request example_listing 900 ''Cozy home near parks.''])
   \<and> ensure_length json_loads numeric_endpoint example_listing cozy_draft []
       = (Inl AttributeError, [revision_request example_listing 900 ''Cozy home near parks.''])
   \<and> ensure_length json_loads failing_endpoint example_listing cozy_draft []
       = (Inl TransportError, [revision_request example_listing 900 ''Cozy home near parks.''])"
proof -
  have o: "\<not> (900 \<le> int (length ''Cozy home near parks.'')
          \<and> int (length ''Cozy home near parks.'') \<le> mls_char_limit example_listing)"
    by simp
  have s: "strip '' Still too short. '' = ''Still too short.''" by code_simp
  have b: "text_or_empty (map_of [(''mls_description'', JString ''   '')] ''mls_description'') = Inr []"
    by code_simp
  have m: "map_of [(''mls_description'', JString '' Still too short. '')] ''mls_description''
             = Some (JString '' Still too short. '')" by simp
  have n: "strip '' Still too short. '' \<noteq> []" by (simp only: s) simp
  note t = ensure_length_best_effort[OF min_chars_example current_cozy o terse_reply]
  note u = ensure_length_best_effort[OF min_chars_example current_cozy o blank_reply]
  have 1: "ensure_length json_loads terse_endpoint example_listing cozy_draft []
       = (Inr (AList.update ''mls_description'' (JString (strip '' Still too short. '')) cozy_draft),
          [revision_request example_listing 900 ''Cozy home near parks.''])"
    using t[THEN conjunct2, THEN conjunct1, rule_format, OF conjI[OF refl conjI[OF m n]]] .
  have 2: "ensure_length json_loads blank_endpoint example_listing cozy_draft []
       = (Inr cozy_draft, [revision_request example_listing 900 ''Cozy home near parks.''])"
    using u[THEN conjunct2, THEN conjunct2, THEN conjunct1, rule_format, OF conjI[OF refl b]] .

  note a = ensure_length_best_effort[OF min_chars_example current_cozy cozy_out_of_range array_reply]
  note nu = ensure_length_best_effort[OF min_chars_example current_cozy cozy_out_of_range numeric_reply]
  note f = ensure_length_best_effort[OF min_chars_example current_cozy cozy_out_of_range failing_reply]
  have na: "\<forall>kvs. JArray [JInt 1] \<noteq> JObject kvs" by simp
  have 3: "ensure_length json_loads array_endpoint example_listing cozy_draft []
       = (Inl AttributeError, [revision_request example_listing 900 ''Cozy home near parks.''])"
    using a[THEN conjunct2, THEN conjunct2, THEN conjunct2, THEN conjunct2, THEN conjunct2, THEN conjunct1,
        THEN spec, THEN spec, THEN mp, OF conjI[OF refl na]] .
  have m5: "map_of [(''mls_description'', JInt 5)] ''mls_description'' = Some (JInt 5)" by simp
  have t5: "truthy (JInt 5)" by simp
  have n5: "\<forall>s. JInt 5 \<noteq> JString s" by simp
  have 4: "ensure_length json_loads numeric_endpoint example_listing cozy_draft []
       = (Inl AttributeError, [revision_request example_listing 900 ''Cozy home near parks.''])"
    using nu[THEN conjunct2, THEN conjunct2, THEN conjunct2, THEN conjunct2, THEN conjunct2, THEN conjunct2,
        THEN conjunct1, THEN spec, THEN spec, THEN spec, THEN mp, OF conjI[OF refl conjI[OF m5 conjI[OF t5 n5]]]] .
  have 5: "ensure_length json_loads failing_endpoint example_listing cozy_draft []
       = (Inl TransportError, [revision_request example_listing 900 ''Cozy home near parks.''])"
    using f[THEN conjunct1, THEN spec, THEN mp, OF refl] .
  show ?thesis
    by (intro conjI) (rule min_chars_example, rule current_cozy, rule o, rule 1, rule s, rule 2,
        rule 3, rule 4, rule 5)
qed

section \<open>Validation and repair\<close>

lemma has_text_iff:
  "has_text data k \<longleftrightarrow> (\<exists>s. map_of data k = Some (JString s) \<and> strip s \<noteq> [])"
  by (auto simp: has_text_def split: option.splits json.splits)

lemma chat_json_repair_log:
  "\<exists>r. chat_json loads ep system_message p (45 / 100) hist = (r, hist @ [repair_request p])"
  using chat_json_log[of loads ep system_message p "45 / 100" hist] by (simp add: repair_request_def)

lemma repair_loop_step:
  assumes "repair_prompt li mn key = Some p"
    and "chat_json loads ep system_message p (45 / 100) hist = (r, hist')"
  shows "repair_loop loads ep li mn (key # keys) data hist =
     (case r of
        Inl e \<Rightarrow> (Inl e, hist')
      | Inr (partial, raw) \<Rightarrow>
          (case merge_preserving data partial of
             Inl e \<Rightarrow> (Inl e, hist')
           | Inr data' \<Rightarrow> repair_loop loads ep li mn keys data' hist'))"
  by (cases r) (simp_all only: repair_loop.simps assms option.case prod.case sum.case split: prod.split)

lemma repair_loop_log:
  "\<exists>n \<le> length (List.map_filter (repair_prompt li mn) keys).
     snd (repair_loop loads ep li mn keys data hist)
       = hist @ map repair_request (take n (List.map_filter (repair_prompt li mn) keys))
     \<and> ((\<exists>d. fst (repair_loop loads ep li mn keys data hist) = Inr d)
          \<longrightarrow> n = length (List.map_filter (repair_prompt li mn) keys))
     \<and> (List.map_filter (repair_prompt li mn) keys \<noteq> [] \<longrightarrow> 0 < n)"
proof (induction keys arbitrary: data hist)
  case Nil
  show ?case by (simp add: List.map_filter_simps)
next
  case (Cons key keys)
  let ?ps = "List.map_filter (repair_prompt li mn) keys"
  show ?case
  proof (cases "repair_prompt li mn key")
    case None
    then show ?thesis using Cons.IH[of data hist] by (simp add: List.map_filter_simps)
  next
    case (Some p)
    obtain r where c: "chat_json loads ep system_message p (45 / 100) hist = (r, hist @ [repair_request p])"
      using chat_json_repair_log by blast
    have stop: ?thesis
      if "repair_loop loads ep li mn (key # keys) data hist = (Inl e, hist @ [repair_request p])" for e
      unfolding that using Some by (intro exI[of _ "Suc 0"]) (simp add: List.map_filter_simps)
    show ?thesis
    proof (cases r)
      case (Inl e)
      show ?thesis by (rule stop[of e]) (simp only: repair_loop_step[OF Some c] Inl sum.case)
    next
      case (Inr vr)
      obtain partial raw where vr: "vr = (partial, raw)" by (cases vr)
      show ?thesis
      proof (cases "merge_preserving data partial")
        case (Inl e)
        show ?thesis by (rule stop[of e]) (simp only: repair_loop_step[OF Some c] Inr vr Inl sum.case prod.case)
      next
        case merged: (Inr data')
        have eq: "repair_loop loads ep li mn (key # keys) data hist
                    = repair_loop loads ep li mn keys data' (hist @ [repair_request p])"
          by (simp only: repair_loop_step[OF Some c] Inr vr merged sum.case prod.case)
        obtain n where n: "n \<le> length ?ps"
          "snd (repair_loop loads ep li mn keys data' (hist @ [repair_request p]))
             = (hist @ [repair_request p]) @ map repair_request (take n ?ps)"
          "(\<exists>d. fst (repair_loop loads ep li mn keys data' (hist @ [repair_request p])) = Inr d)
             \<longrightarrow> n = length ?ps"
          using Cons.IH[of data' "hist @ [repair_request p]"] by blast
        show ?thesis
          using n Some unfolding eq
          by (intro exI[of _ "Suc n"]) (simp add: List.map_filter_simps)
      qed
    qed
  qed
qed

lemma repair_loop_completes:
  assumes "\<forall>h q. \<exists>raw kvs. ep h q = Inr (Some raw) \<and> safe_json_extract loads (Some raw) = Inr (JObject kvs)"
  shows "\<exists>d. repair_loop loads ep li mn keys data hist
           = (Inr d, hist @ map repair_request (List.map_filter (repair_prompt li mn) keys))"
proof (induction keys arbitrary: data hist)
  case Nil
  show ?case by (simp add: List.map_filter_simps)
next
  case (Cons key keys)
  show ?case
  proof (cases "repair_prompt li mn key")
    case None
    then show ?thesis using Cons.IH[of data hist] by (simp add: List.map_filter_simps)
  next
    case (Some p)
    obtain raw kvs where e: "ep hist (repair_request p) = Inr (Some raw)"
      "safe_json_extract loads (Some raw) = Inr (JObject kvs)"
      using assms by blast
    have c: "chat_json loads ep system_message p (45 / 100) hist
               = (Inr (JObject kvs, raw), hist @ [repair_request p])"
      using e chat_json_reply[of ep hist system_message p "45 / 100" raw loads]
      by (simp add: repair_request_def)
    obtain d where "repair_loop loads ep li mn keys
        (fold (\<lambda>(k, v) out. AList.update k v out) kvs data) (hist @ [repair_request p])
        = (Inr d, (hist @ [repair_request p]) @ map repair_request (List.map_filter (repair_prompt li mn) keys))"
      using Cons.IH by blast
    then show ?thesis
      unfolding repair_loop_step[OF Some c]
      by (simp add: Some merge_preserving_object List.map_filter_simps)
  qed
qed

lemma missing_all_but_description:
  assumes "has_text data ''mls_description''" "\<not> has_text data ''social_caption''"
    "\<not> has_text data ''instagram_hashtags''" "\<not> has_text data ''video_script_60s''"
  shows "missing_keys data = [''social_caption'', ''instagram_hashtags'', ''video_script_60s'']"
  using assms by (simp add: missing_keys_def REQUIRED_KEYS_def)

lemma prompts_all_but_description:
  "List.map_filter (repair_prompt li mn) [''social_caption'', ''instagram_hashtags'', ''video_script_60s'']
     = [SocialCaptionPrompt li, InstagramHashtagsPrompt li, VideoScriptPrompt li]"
  by (simp add: List.map_filter_simps repair_prompt_def)

lemma validate_and_repair_missing:
  assumes "min_chars (mls_char_limit li) = Inr mn" "missing_keys data \<noteq> []"
  shows "validate_and_repair loads ep li data hist = repair_loop loads ep li mn (missing_keys data) data hist"
  using assms by (simp add: validate_and_repair_def Let_def)

lemma cozy_only_description:
  "has_text cozy_draft ''mls_description''" "\<not> has_text cozy_draft ''social_caption''"
  "\<not> has_text cozy_draft ''instagram_hashtags''" "\<not> has_text cozy_draft ''video_script_60s''"
  using current_cozy by (simp_all add: has_text_def cozy_draft_def text_or_empty_def split: if_splits)

text \<open>
  Claim C1 as stated (exactly three repair calls) fails when a repair call raises, which
  ends the stage: with only \<open>mls_description\<close> present
  and an endpoint that answers \<open>not json at all\<close>, the stage raises after the
  first of the three repair requests.
\<close>

theorem validate_and_repair_garbled_reply:
  "validate_and_repair json_loads garbled_endpoint example_listing cozy_draft []
     = (Inl JSONDecodeError, [repair_request (SocialCaptionPrompt example_listing)])"
proof -
  note h = cozy_only_description
  have r: "safe_json_extract json_loads (Some ''not json at all'') = Inl JSONDecodeError"
    by code_simp
  have p: "repair_prompt example_listing 900 ''social_caption'' = Some (SocialCaptionPrompt example_listing)"
    by (simp add: repair_prompt_def)
  have c: "chat_json json_loads garbled_endpoint system_message (SocialCaptionPrompt example_listing) (45 / 100) []
             = (Inl JSONDecodeError, [repair_request (SocialCaptionPrompt example_listing)])"
    using chat_json_reply[of garbled_endpoint "[]" system_message "SocialCaptionPrompt example_listing" "45 / 100" "''not json at all''" json_loads]
    by (simp add: garbled_endpoint_def r repair_request_def)
  have m: "missing_keys cozy_draft \<noteq> []"
    by (simp only: missing_all_but_description[OF h]) simp
  show ?thesis
    unfolding validate_and_repair_missing[OF min_chars_example m] missing_all_but_description[OF h]
      repair_loop_step[OF p c]
    by simp
qed

lemma validate_and_repair_prefix:
  assumes "min_chars (mls_char_limit li) = Inr mn"
  shows "set (missing_keys data)
           = {k \<in> set REQUIRED_KEYS. \<not> (\<exists>s. map_of data k = Some (JString s) \<and> strip s \<noteq> [])}
       \<and> (missing_keys data = [] \<longrightarrow> validate_and_repair loads ep li data hist = (Inr data, hist))
       \<and> (has_text data ''mls_description'' \<and> \<not> has_text data ''social_caption''
            \<and> \<not> has_text data ''instagram_hashtags'' \<and> \<not> has_text data ''video_script_60s''
          \<longrightarrow> (\<exists>r n. validate_and_repair loads ep li data hist
                       = (r, hist @ take n [repair_request (SocialCaptionPrompt li),
                                            repair_request (InstagramHashtagsPrompt li),
                                            repair_request (VideoScriptPrompt li)])
                     \<and> 1 \<le> n \<and> n \<le> 3 \<and> ((\<exists>d. r = Inr d) \<longrightarrow> n = 3))
              \<and> ((\<forall>h q. \<exists>raw kvs. ep h q = Inr (Some raw)
                                    \<and> safe_json_extract loads (Some raw) = Inr (JObject kvs))
                   \<longrightarrow> (\<exists>d. validate_and_repair loads ep li data hist
                             = (Inr d, hist @ [repair_request (SocialCaptionPrompt li),
                                               repair_request (InstagramHashtagsPrompt li),
                                               repair_request (VideoScriptPrompt li)]))))"
proof (intro conjI impI)
  show "set (missing_keys data)
           = {k \<in> set REQUIRED_KEYS. \<not> (\<exists>s. map_of data k = Some (JString s) \<and> strip s \<noteq> [])}"
    unfolding missing_keys_def set_filter has_text_iff ..
next
  assume "missing_keys data = []"
  then show "validate_and_repair loads ep li data hist = (Inr data, hist)"
    using assms by (simp add: validate_and_repair_def)
next
  assume h: "has_text data ''mls_description'' \<and> \<not> has_text data ''social_caption''
            \<and> \<not> has_text data ''instagram_hashtags'' \<and> \<not> has_text data ''video_script_60s''"
  then have mk: "missing_keys data = [''social_caption'', ''instagram_hashtags'', ''video_script_60s'']"
    by (intro missing_all_but_description) simp_all
  then have ne: "missing_keys data \<noteq> []" by simp
  note v = validate_and_repair_missing[OF assms ne, of loads ep hist, unfolded mk]
  let ?reqs = "[repair_request (SocialCaptionPrompt li), repair_request (InstagramHashtagsPrompt li),
                repair_request (VideoScriptPrompt li)]"
  let ?keys = "[''social_caption'', ''instagram_hashtags'', ''video_script_60s'']"
  let ?ps = "[SocialCaptionPrompt li, InstagramHashtagsPrompt li, VideoScriptPrompt li]"
  obtain n where a: "n \<le> length ?ps"
    and b: "snd (repair_loop loads ep li mn ?keys data hist) = hist @ map repair_request (take n ?ps)"
    and c: "(\<exists>d. fst (repair_loop loads ep li mn ?keys data hist) = Inr d) \<longrightarrow> n = length ?ps"
    and d: "?ps \<noteq> [] \<longrightarrow> 0 < n"
    using repair_loop_log[of li mn ?keys loads ep data hist]
    unfolding prompts_all_but_description by blast
  have tm: "map repair_request (take n ?ps) = take n ?reqs"
    by (simp add: take_map[symmetric])
  have n: "n \<le> 3"
    "snd (validate_and_repair loads ep li data hist) = hist @ take n ?reqs"
    "(\<exists>d. fst (validate_and_repair loads ep li data hist) = Inr d) \<longrightarrow> n = 3"
    "0 < n"
    using a b c d unfolding v tm by simp_all
  show "\<exists>r n. validate_and_repair loads ep li data hist = (r, hist @ take n ?reqs)
                     \<and> 1 \<le> n \<and> n \<le> 3 \<and> ((\<exists>d. r = Inr d) \<longrightarrow> n = 3)"
    using n by (intro exI[of _ "fst (validate_and_repair loads ep li data hist)"] exI[of _ n])
      (simp add: prod_eq_iff)
  {
    assume "\<forall>h q. \<exists>raw kvs. ep h q = Inr (Some raw) \<and> safe_json_extract loads (Some raw) = Inr (JObject kvs)"
    from repair_loop_completes[OF this, of li mn "[''social_caption'', ''instagram_hashtags'', ''video_script_60s'']" data hist]
    show "\<exists>d. validate_and_repair loads ep li data hist = (Inr d, hist @ ?reqs)"
      unfolding v[symmetric] prompts_all_but_description by simp
  }
qed

lemma repair_call_log:
  "\<exists>res. repair_call loads ep p data hist = (res, hist @ [repair_request p])"
proof -
  obtain r where c: "chat_json loads ep system_message p (45 / 100) hist = (r, hist @ [repair_request p])"
    using chat_json_repair_log by blast
  show ?thesis
    unfolding repair_call_def c by (cases r) (simp_all split: prod.split)
qed

lemma repair_loop_call:
  assumes "repair_prompt li mn key = Some p"
  shows "repair_loop loads ep li mn (key # keys) data hist =
     (case repair_call loads ep p data hist of
        (Inl e, hist') \<Rightarrow> (Inl e, hist')
      | (Inr data', hist') \<Rightarrow> repair_loop loads ep li mn keys data' hist')"
proof -
  obtain r h where c: "chat_json loads ep system_message p (45 / 100) hist = (r, h)"
    by (cases "chat_json loads ep system_message p (45 / 100) hist")
  show ?thesis
    unfolding repair_loop_step[OF assms c] repair_call_def c
    by (cases r) (simp_all split: prod.split sum.split)
qed

lemma repair_call_endpoint_error:
  assumes "ep hist (repair_request p) = Inl e"
  shows "repair_call loads ep p data hist = (Inl e, hist @ [repair_request p])"
  using assms unfolding repair_call_def chat_json_def chat_raw_def repair_request_def
  by (simp only: sum.case prod.case)

lemma repair_call_reply:
  assumes "ep hist (repair_request p) = Inr content"
  shows "repair_call loads ep p data hist =
     (case safe_json_extract loads (Some (case content of None \<Rightarrow> [] | Some s \<Rightarrow> s)) of
        Inl e \<Rightarrow> Inl e
      | Inr v \<Rightarrow> merge_preserving data v,
      hist @ [repair_request p])"
  using assms unfolding repair_call_def chat_json_def chat_raw_def repair_request_def
  by (simp only: sum.case prod.case split: sum.split) simp

lemma repair_loop_three:
  assumes p: "repair_prompt li mn k1 = Some p1" "repair_prompt li mn k2 = Some p2"
    "repair_prompt li mn k3 = Some p3"
  shows "(\<forall>e. repair_call loads ep p1 data hist = (Inl e, hist @ [repair_request p1])
            \<longrightarrow> repair_loop loads ep li mn [k1, k2, k3] data hist = (Inl e, hist @ [repair_request p1]))
       \<and> (\<forall>d1 e. repair_call loads ep p1 data hist = (Inr d1, hist @ [repair_request p1])
              \<and> repair_call loads ep p2 d1 (hist @ [repair_request p1])
                  = (Inl e, hist @ [repair_request p1, repair_request p2])
            \<longrightarrow> repair_loop loads ep li mn [k1, k2, k3] data hist
                  = (Inl e, hist @ [repair_request p1, repair_request p2]))
       \<and> (\<forall>d1 d2 res. repair_call loads ep p1 data hist = (Inr d1, hist @ [repair_request p1])
              \<and> repair_call loads ep p2 d1 (hist @ [repair_request p1])
                  = (Inr d2, hist @ [repair_request p1, repair_request p2])
              \<and> repair_call loads ep p3 d2 (hist @ [repair_request p1, repair_request p2])
                  = (res, hist @ [repair_request p1, repair_request p2, repair_request p3])
            \<longrightarrow> repair_loop loads ep li mn [k1, k2, k3] data hist
                  = (res, hist @ [repair_request p1, repair_request p2, repair_request p3]))"
proof (intro conjI allI impI)
  fix e assume h: "repair_call loads ep p1 data hist = (Inl e, hist @ [repair_request p1])"
  show "repair_loop loads ep li mn [k1, k2, k3] data hist = (Inl e, hist @ [repair_request p1])"
    unfolding repair_loop_call[OF p(1)] by (simp only: h prod.case sum.case)
next
  fix d1 e
  assume h: "repair_call loads ep p1 data hist = (Inr d1, hist @ [repair_request p1])
              \<and> repair_call loads ep p2 d1 (hist @ [repair_request p1])
                  = (Inl e, hist @ [repair_request p1, repair_request p2])"
  have s1: "repair_loop loads ep li mn [k1, k2, k3] data hist
              = repair_loop loads ep li mn [k2, k3] d1 (hist @ [repair_request p1])"
    unfolding repair_loop_call[OF p(1)] by (simp only: h[THEN conjunct1] prod.case sum.case)
  have s2: "repair_loop loads ep li mn [k2, k3] d1 (hist @ [repair_request p1])
              = (Inl e, hist @ [repair_request p1, repair_request p2])"
    unfolding repair_loop_call[OF p(2)] by (simp only: h[THEN conjunct2] prod.case sum.case)
  show "repair_loop loads ep li mn [k1, k2, k3] data hist
                  = (Inl e, hist @ [repair_request p1, repair_request p2])"
    by (simp only: s1 s2)
next
  fix d1 d2 res
  assume h: "repair_call loads ep p1 data hist = (Inr d1, hist @ [repair_request p1])
              \<and> repair_call loads ep p2 d1 (hist @ [repair_request p1])
                  = (Inr d2, hist @ [repair_request p1, repair_request p2])
              \<and> repair_call loads ep p3 d2 (hist @ [repair_request p1, repair_request p2])
                  = (res, hist @ [repair_request p1, repair_request p2, repair_request p3])"
  have s1: "repair_loop loads ep li mn [k1, k2, k3] data hist
              = repair_loop loads ep li mn [k2, k3] d1 (hist @ [repair_request p1])"
    unfolding repair_loop_call[OF p(1)] by (simp only: h[THEN conjunct1] prod.case sum.case)
  have s2: "repair_loop loads ep li mn [k2, k3] d1 (hist @ [repair_request p1])
              = repair_loop loads ep li mn [k3] d2 (hist @ [repair_request p1, repair_request p2])"
    unfolding repair_loop_call[OF p(2)]
    by (simp only: h[THEN conjunct2, THEN conjunct1] prod.case sum.case)
  have s3: "repair_loop loads ep li mn [k3] d2 (hist @ [repair_request p1, repair_request p2])
              = (res, hist @ [repair_request p1, repair_request p2, repair_request p3])"
    unfolding repair_loop_call[OF p(3)]
    by (cases res) (simp_all only: h[THEN conjunct2, THEN conjunct2] prod.case sum.case repair_loop.simps)
  show "repair_loop loads ep li mn [k1, k2, k3] data hist
                  = (res, hist @ [repair_request p1, repair_request p2, repair_request p3])"
    by (simp only: s1 s2 s3)
qed

text \<open>
  Claim C1, as the code has it. The missing keys are exactly the required keys whose
  value is not a string or is empty after trimming. When none is missing the data is
  returned unchanged and no request is made. When only \<open>mls_description\<close> is
  present, the stage makes one repair call per missing key in the order
  \<open>social_caption\<close>, \<open>instagram_hashtags\<close>, \<open>video_script_60s\<close>, each call adding
  one request to the log, and stops at the first call that raises: if the first call
  raises, its error is the result and the log holds that one request; if the second
  raises, the log holds two; otherwise the log holds all three and the result is that
  of the third call. A call raises when the endpoint fails, when the reply cannot be
  decoded, or when merging what it decodes to raises. The stage returns a result with
  all three requests whenever every reply decodes to an object.
\<close>

theorem validate_and_repair_calls:
  assumes "min_chars (mls_char_limit li) = Inr mn"
  shows "set (missing_keys data)
           = {k \<in> set REQUIRED_KEYS. \<not> (\<exists>s. map_of data k = Some (JString s) \<and> strip s \<noteq> [])}
       \<and> (missing_keys data = [] \<longrightarrow> validate_and_repair loads ep li data hist = (Inr data, hist))
       \<and> (has_text data ''mls_description'' \<and> \<not> has_text data ''social_caption''
            \<and> \<not> has_text data ''instagram_hashtags'' \<and> \<not> has_text data ''video_script_60s''
          \<longrightarrow> (\<exists>r n. validate_and_repair loads ep li data hist
                       = (r, hist @ take n [repair_request (SocialCaptionPrompt li),
                                            repair_request (InstagramHashtagsPrompt li),
                                            repair_request (VideoScriptPrompt li)])
                     \<and> 1 \<le> n \<and> n \<le> 3 \<and> ((\<exists>d. r = Inr d) \<longrightarrow> n = 3))
              \<and> ((\<forall>h q. \<exists>raw kvs. ep h q = Inr (Some raw)
                                    \<and> safe_json_extract loads (Some raw) = Inr (JObject kvs))
                   \<longrightarrow> (\<exists>d. validate_and_repair loads ep li data hist
                             = (Inr d, hist @ [repair_request (SocialCaptionPrompt li),
                                               repair_request (InstagramHashtagsPrompt li),
                                               repair_request (VideoScriptPrompt li)]))))
       \<and> (has_text data ''mls_description'' \<and> \<not> has_text data ''social_caption''
            \<and> \<not> has_text data ''instagram_hashtags'' \<and> \<not> has_text data ''video_script_60s''
          \<longrightarrow> (\<forall>e. repair_call loads ep (SocialCaptionPrompt li) data hist
                       = (Inl e, hist @ [repair_request (SocialCaptionPrompt li)])
                   \<longrightarrow> validate_and_repair loads ep li data hist
                         = (Inl e, hist @ [repair_request (SocialCaptionPrompt li)]))
              \<and> (\<forall>d1 e. repair_call loads ep (SocialCaptionPrompt li) data hist
                            = (Inr d1, hist @ [repair_request (SocialCaptionPrompt li)])
                      \<and> repair_call loads ep (InstagramHashtagsPrompt li) d1
                            (hist @ [repair_request (SocialCaptionPrompt li)])
                          = (Inl e, hist @ [repair_request (SocialCaptionPrompt li),
                                            repair_request (InstagramHashtagsPrompt li)])
                   \<longrightarrow> validate_and_repair loads ep li data hist
                         = (Inl e, hist @ [repair_request (SocialCaptionPrompt li),
                                           repair_request (InstagramHashtagsPrompt li)]))
              \<and> (\<forall>d1 d2 res. repair_call loads ep (SocialCaptionPrompt li) data hist
                            = (Inr d1, hist @ [repair_request (SocialCaptionPrompt li)])
                      \<and> repair_call loads ep (InstagramHashtagsPrompt li) d1
                            (hist @ [repair_request (SocialCaptionPrompt li)])
                          = (Inr d2, hist @ [repair_request (SocialCaptionPrompt li),
                                             repair_request (InstagramHashtagsPrompt li)])
                      \<and> repair_call loads ep (VideoScriptPrompt li) d2
                            (hist @ [repair_request (SocialCaptionPrompt li),
                                     repair_request (InstagramHashtagsPrompt li)])
                          = (res, hist @ [repair_request (SocialCaptionPrompt li),
                                          repair_request (InstagramHashtagsPrompt li),
                                          repair_request (VideoScriptPrompt li)])
                   \<longrightarrow> validate_and_repair loads ep li data hist
                         = (res, hist @ [repair_request (SocialCaptionPrompt li),
                                         repair_request (InstagramHashtagsPrompt li),
                                         repair_request (VideoScriptPrompt li)])))
       \<and> (\<forall>p d h. \<exists>res. repair_call loads ep p d h = (res, h @ [repair_request p]))
       \<and> (\<forall>p d h e. ep h (repair_request p) = Inl e
            \<longrightarrow> repair_call loads ep p d h = (Inl e, h @ [repair_request p]))
       \<and> (\<forall>p d h content e. ep h (repair_request p) = Inr content
              \<and> safe_json_extract loads (Some (case content of None \<Rightarrow> [] | Some s \<Rightarrow> s)) = Inl e
            \<longrightarrow> repair_call loads ep p d h = (Inl e, h @ [repair_request p]))
       \<and> (\<forall>p d h content v. ep h (repair_request p) = Inr content
              \<and> safe_json_extract loads (Some (case content of None \<Rightarrow> [] | Some s \<Rightarrow> s)) = Inr v
            \<longrightarrow> repair_call loads ep p d h = (merge_preserving d v, h @ [repair_request p]))"
proof -
  note old = validate_and_repair_prefix[OF assms, of data loads ep hist]
  let ?H = "has_text data ''mls_description'' \<and> \<not> has_text data ''social_caption''
            \<and> \<not> has_text data ''instagram_hashtags'' \<and> \<not> has_text data ''video_script_60s''"
  have three: "(\<forall>e. repair_call loads ep (SocialCaptionPrompt li) data hist
                       = (Inl e, hist @ [repair_request (SocialCaptionPrompt li)])
                   \<longrightarrow> validate_and_repair loads ep li data hist
                         = (Inl e, hist @ [repair_request (SocialCaptionPrompt li)]))
              \<and> (\<forall>d1 e. repair_call loads ep (SocialCaptionPrompt li) data hist
                            = (Inr d1, hist @ [repair_request (SocialCaptionPrompt li)])
                      \<and> repair_call loads ep (InstagramHashtagsPrompt li) d1
                            (hist @ [repair_request (SocialCaptionPrompt li)])
                          = (Inl e, hist @ [repair_request (SocialCaptionPrompt li),
                                            repair_request (InstagramHashtagsPrompt li)])
                   \<longrightarrow> validate_and_repair loads ep li data hist
                         = (Inl e, hist @ [repair_request (SocialCaptionPrompt li),
                                           repair_request (InstagramHashtagsPrompt li)]))
              \<and> (\<forall>d1 d2 res. repair_call loads ep (SocialCaptionPrompt li) data hist
                            = (Inr d1, hist @ [repair_request (SocialCaptionPrompt li)])
                      \<and> repair_call loads ep (InstagramHashtagsPrompt li) d1
                            (hist @ [repair_request (SocialCaptionPrompt li)])
                          = (Inr d2, hist @ [repair_request (SocialCaptionPrompt li),
                                             repair_request (InstagramHashtagsPrompt li)])
                      \<and> repair_call loads ep (VideoScriptPrompt li) d2
                            (hist @ [repair_request (SocialCaptionPrompt li),
                                     repair_request (InstagramHashtagsPrompt li)])
                          = (res, hist @ [repair_request (SocialCaptionPrompt li),
                                          repair_request (InstagramHashtagsPrompt li),
                                          repair_request (VideoScriptPrompt li)])
                   \<longrightarrow> validate_and_repair loads ep li data hist
                         = (res, hist @ [repair_request (SocialCaptionPrompt li),
                                         repair_request (InstagramHashtagsPrompt li),
                                         repair_request (VideoScriptPrompt li)]))"
    if h: ?H
  proof -
    have mk: "missing_keys data = [''social_caption'', ''instagram_hashtags'', ''video_script_60s'']"
      using h by (intro missing_all_but_description) simp_all
    then have ne: "missing_keys data \<noteq> []" by simp
    note v = validate_and_repair_missing[OF assms ne, of loads ep hist, unfolded mk]
    have p: "repair_prompt li mn ''social_caption'' = Some (SocialCaptionPrompt li)"
      "repair_prompt li mn ''instagram_hashtags'' = Some (InstagramHashtagsPrompt li)"
      "repair_prompt li mn ''video_script_60s'' = Some (VideoScriptPrompt li)"
      by (simp_all add: repair_prompt_def)
    show ?thesis
      unfolding v by (rule repair_loop_three[OF p])
  qed
  have log: "\<forall>p d h. \<exists>res. repair_call loads ep p d h = (res, h @ [repair_request p])"
    by (intro allI) (rule repair_call_log)
  have err: "\<forall>p d h e. ep h (repair_request p) = Inl e
            \<longrightarrow> repair_call loads ep p d h = (Inl e, h @ [repair_request p])"
    by (intro allI impI) (erule repair_call_endpoint_error)
  have dec: "\<forall>p d h content e. ep h (repair_request p) = Inr content
              \<and> safe_json_extract loads (Some (case content of None \<Rightarrow> [] | Some s \<Rightarrow> s)) = Inl e
            \<longrightarrow> repair_call loads ep p d h = (Inl e, h @ [repair_request p])"
  proof (intro allI impI)
    fix p d h content e
    assume a: "ep h (repair_request p) = Inr content
              \<and> safe_json_extract loads (Some (case content of None \<Rightarrow> [] | Some s \<Rightarrow> s)) = Inl e"
    show "repair_call loads ep p d h = (Inl e, h @ [repair_request p])"
      unfolding repair_call_reply[where ep = ep and hist = h, OF a[THEN conjunct1]] by (simp only: a[THEN conjunct2] sum.case)
  qed
  have mrg: "\<forall>p d h content v. ep h (repair_request p) = Inr content
              \<and> safe_json_extract loads (Some (case content of None \<Rightarrow> [] | Some s \<Rightarrow> s)) = Inr v
            \<longrightarrow> repair_call loads ep p d h = (merge_preserving d v, h @ [repair_request p])"
  proof (intro allI impI)
    fix p d h content v
    assume a: "ep h (repair_request p) = Inr content
              \<and> safe_json_extract loads (Some (case content of None \<Rightarrow> [] | Some s \<Rightarrow> s)) = Inr v"
    show "repair_call loads ep p d h = (merge_preserving d v, h @ [repair_request p])"
      unfolding repair_call_reply[where ep = ep and hist = h, OF a[THEN conjunct1]] by (simp only: a[THEN conjunct2] sum.case)
  qed
  show ?thesis
    by (intro conjI) (rule old[THEN conjunct1], rule old[THEN conjunct2, THEN conjunct1],
        rule old[THEN conjunct2, THEN conjunct2], rule impI, erule three, rule log, rule err, rule dec, rule mrg)
qed

lemma complete_result_filled: "missing_keys complete_result = []"
proof -
  have "strip ''Cozy home near parks.'' \<noteq> []" "strip ''Come and see.'' \<noteq> []"
    "strip ''#home #listing'' \<noteq> []" "strip ''Welcome in.'' \<noteq> []"
    by code_simp+
  then show ?thesis
    by (simp add: missing_keys_def REQUIRED_KEYS_def has_text_def complete_result_def)
qed

lemma complete_endpoint_decodes:
  "\<forall>h q. \<exists>raw kvs. complete_endpoint h q = Inr (Some raw)
                    \<and> safe_json_extract json_loads (Some raw) = Inr (JObject kvs)"
proof (intro allI)
  fix h q
  have r: \<open>safe_json_extract json_loads (Some
     ''{"social_caption": "Come and see.", "instagram_hashtags": "#home #listing", "video_script_60s": "Welcome in."}'')
    = Inr (JObject [(''social_caption'', JString ''Come and see.''),
                    (''instagram_hashtags'', JString ''#home #listing''),
                    (''video_script_60s'', JString ''Welcome in.'')])\<close>
    by code_simp
  have e: \<open>complete_endpoint h q = Inr (Some
     ''{"social_caption": "Come and see.", "instagram_hashtags": "#home #listing", "video_script_60s": "Welcome in."}'')\<close>
    by (simp add: complete_endpoint_def)
  show "\<exists>raw kvs. complete_endpoint h q = Inr (Some raw)
                    \<and> safe_json_extract json_loads (Some raw) = Inr (JObject kvs)"
    by (intro exI conjI) (rule e, rule r)
qed

lemma garbled_social_call:
  "repair_call json_loads garbled_endpoint (SocialCaptionPrompt example_listing) cozy_draft []
     = (Inl JSONDecodeError, [] @ [repair_request (SocialCaptionPrompt example_listing)])"
proof -
  have e: "garbled_endpoint [] (repair_request (SocialCaptionPrompt example_listing))
             = Inr (Some ''not json at all'')"
    by (simp add: garbled_endpoint_def)
  have r: "safe_json_extract json_loads (Some ''not json at all'') = Inl JSONDecodeError"
    by code_simp
  show ?thesis
    unfolding repair_call_reply[where ep = garbled_endpoint and hist = "[]", OF e]
    by (simp add: r)
qed

lemma flaky_social_call:
  "repair_call json_loads flaky_endpoint (SocialCaptionPrompt example_listing) cozy_draft []
     = (Inr [(''mls_description'', JString ''Cozy home near parks.''),
             (''social_caption'', JString ''Come and see.'')],
        [] @ [repair_request (SocialCaptionPrompt example_listing)])"
proof -
  have e: \<open>flaky_endpoint [] (repair_request (SocialCaptionPrompt example_listing))
             = Inr (Some ''{"social_caption": "Come and see."}'')\<close>
    by (simp add: flaky_endpoint_def)
  have r: \<open>safe_json_extract json_loads (Some ''{"social_caption": "Come and see."}'')
             = Inr (JObject [(''social_caption'', JString ''Come and see.'')])\<close>
    by code_simp
  show ?thesis
    unfolding repair_call_reply[where ep = flaky_endpoint and hist = "[]", OF e]
    by (simp add: r merge_preserving_def cozy_draft_def)
qed

lemma flaky_hashtags_call:
  "repair_call json_loads flaky_endpoint (InstagramHashtagsPrompt example_listing)
       [(''mls_description'', JString ''Cozy home near parks.''),
        (''social_caption'', JString ''Come and see.'')]
       ([] @ [repair_request (SocialCaptionPrompt example_listing)])
     = (Inl JSONDecodeError,
        [] @ [repair_request (SocialCaptionPrompt example_listing),
              repair_request (InstagramHashtagsPrompt example_listing)])"
proof -
  have e: "flaky_endpoint ([] @ [repair_request (SocialCaptionPrompt example_listing)])
              (repair_request (InstagramHashtagsPrompt example_listing))
             = Inr (Some ''not json at all'')"
    by (simp add: flaky_endpoint_def)
  have r: "safe_json_extract json_loads (Some ''not json at all'') = Inl JSONDecodeError"
    by code_simp
  show ?thesis
    unfolding repair_call_reply[where ep = flaky_endpoint
        and hist = "[] @ [repair_request (SocialCaptionPrompt example_listing)]", OF e]
    by (simp add: r)
qed

lemma cozy_only_description_conj:
  "has_text cozy_draft ''mls_description'' \<and> \<not> has_text cozy_draft ''social_caption''
        \<and> \<not> has_text cozy_draft ''instagram_hashtags'' \<and> \<not> has_text cozy_draft ''video_script_60s''"
  by (intro conjI) (rule cozy_only_description)+

theorem validate_and_repair_calls_witness:
  "min_chars (mls_char_limit example_listing) = Inr 900
   \<and> missing_keys complete_result = []
   \<and> validate_and_repair json_loads garbled_endpoint example_listing complete_result []
       = (Inr complete_result, [])
   \<and> (has_text cozy_draft ''mls_description'' \<and> \<not> has_text cozy_draft ''social_caption''
        \<and> \<not> has_text cozy_draft ''instagram_hashtags'' \<and> \<not> has_text cozy_draft ''video_script_60s'')
   \<and> (\<exists>d. validate_and_repair json_loads complete_endpoint example_listing cozy_draft []
             = (Inr d, [] @ [repair_request (SocialCaptionPrompt example_listing),
                             repair_request (InstagramHashtagsPrompt example_listing),
                             repair_request (VideoScriptPrompt example_listing)]))
   \<and> validate_and_repair json_loads garbled_endpoint example_listing cozy_draft []
       = (Inl JSONDecodeError, [] @ [repair_request (SocialCaptionPrompt example_listing)])
   \<and> validate_and_repair json_loads flaky_endpoint example_listing cozy_draft []
       = (Inl JSONDecodeError,
          [] @ [repair_request (SocialCaptionPrompt example_listing),
                repair_request (InstagramHashtagsPrompt example_listing)])"
proof -
  note t = validate_and_repair_calls[OF min_chars_example, of complete_result json_loads garbled_endpoint "[]"]
  note u = validate_and_repair_calls[OF min_chars_example, of cozy_draft json_loads complete_endpoint "[]"]
  have 1: "validate_and_repair json_loads garbled_endpoint example_listing complete_result []
       = (Inr complete_result, [])"
    using t[THEN conjunct2, THEN conjunct1, rule_format, OF complete_result_filled] .
  have h: "has_text cozy_draft ''mls_description'' \<and> \<not> has_text cozy_draft ''social_caption''
        \<and> \<not> has_text cozy_draft ''instagram_hashtags'' \<and> \<not> has_text cozy_draft ''video_script_60s''"
    by (intro conjI) (rule cozy_only_description)+
  have 2: "\<exists>d. validate_and_repair json_loads complete_endpoint example_listing cozy_draft []
             = (Inr d, [] @ [repair_request (SocialCaptionPrompt example_listing),
                             repair_request (InstagramHashtagsPrompt example_listing),
                             repair_request (VideoScriptPrompt example_listing)])"
    using u[THEN conjunct2, THEN conjunct2, THEN conjunct1, THEN mp, OF h, THEN conjunct2, THEN mp,
        OF complete_endpoint_decodes] .
  note g = validate_and_repair_calls[OF min_chars_example, of cozy_draft json_loads garbled_endpoint "[]"]
  note f = validate_and_repair_calls[OF min_chars_example, of cozy_draft json_loads flaky_endpoint "[]"]
  have 3: "validate_and_repair json_loads garbled_endpoint example_listing cozy_draft []
       = (Inl JSONDecodeError, [] @ [repair_request (SocialCaptionPrompt example_listing)])"
    using g[THEN conjunct2, THEN conjunct2, THEN conjunct2, THEN conjunct1, THEN mp,
        OF cozy_only_description_conj, THEN conjunct1, THEN spec, THEN mp, OF garbled_social_call] .
  have 4: "validate_and_repair json_loads flaky_endpoint example_listing cozy_draft []
       = (Inl JSONDecodeError,
          [] @ [repair_request (SocialCaptionPrompt example_listing),
                repair_request (InstagramHashtagsPrompt example_listing)])"
    using f[THEN conjunct2, THEN conjunct2, THEN conjunct2, THEN conjunct1, THEN mp,
        OF cozy_only_description_conj, THEN conjunct2, THEN conjunct1, THEN spec, THEN spec, THEN mp,
        OF conjI[OF flaky_social_call flaky_hashtags_call]] .
  show ?thesis
    by (intro conjI) (rule min_chars_example, rule complete_result_filled, rule 1, rule h[THEN conjunct1],
        rule h[THEN conjunct2, THEN conjunct1], rule h[THEN conjunct2, THEN conjunct2, THEN conjunct1],
        rule h[THEN conjunct2, THEN conjunct2, THEN conjunct2], rule 2, rule 3, rule 4)
qed

section \<open>Keywords\<close>

lemma clean_tokens_distinct:
  "distinct cleaned \<Longrightarrow> distinct (clean_tokens ts cleaned (set cleaned))"
proof (induction ts arbitrary: cleaned)
  case Nil
  then show ?case by simp
next
  case (Cons t ts)
  show ?case
  proof (cases "normalize_token t \<noteq> [] \<and> normalize_token t \<notin> set cleaned")
    case True
    then have "distinct (cleaned @ [normalize_token t])" using Cons.prems by simp
    from Cons.IH[OF this] show ?thesis using True by (simp add: Let_def)
  next
    case False
    then show ?thesis using Cons.IH[OF Cons.prems] by (auto simp: Let_def)
  qed
qed

lemma build_keywords_distinct_capped:
  "distinct (build_keywords_from_selections fs sel b1 b2 sq lot yr pt ex)
   \<and> length (build_keywords_from_selections fs sel b1 b2 sq lot yr pt ex) \<le> 60"
  using clean_tokens_distinct[of "[]"] by (simp add: build_keywords_from_selections_def)

lemma collect_tokens_no_labels:
  assumes "concat (map snd sel) = []"
  shows "collect_tokens fs sel b1 b2 sq lot yr pt ex = collect_tokens fs [] b1 b2 sq lot yr pt ex"
  using assms by (simp add: collect_tokens_def)

lemma no_labels_selected: "concat (map snd (map (\<lambda>(g, items). (g, [])) groups)) = []"
  by (induction groups) auto

text \<open>
  Claim C4, evaluated on the script. The builder removes repeated tokens and keeps at
  most 60 (\<open>build_keywords_distinct_capped\<close>), but the script calls it with no extra
  keywords and appends the user's extras afterwards, lowercased only. With the form's
  default values, no feature selected and the extra keywords \<open>pool, Pool\<close>, the
  keyword list holds \<open>pool\<close> twice.
\<close>

theorem auto_keywords_repeats_extra:
  "auto_keywords repr_one_decimal (map (\<lambda>(g, items). (g, [])) feature_taxonomy)
     3 2 1600 5000 1995 ''Single Family'' ''pool, Pool''
   = [''3 bedrooms'', ''2.0 bathrooms'', ''1600 sqft'', ''5000 sf lot'', ''built 1995'',
      ''single family'', ''pool'', ''pool'']
   \<and> \<not> distinct (auto_keywords repr_one_decimal (map (\<lambda>(g, items). (g, [])) feature_taxonomy)
                      3 2 1600 5000 1995 ''Single Family'' ''pool, Pool'')"
proof -
  have a: "build_keywords_from_selections repr_one_decimal [] (Some 3) (Some 2) (Some 1600) (Some 5000) (Some 1995) ''Single Family'' []
     = [''3 bedrooms'', ''2.0 bathrooms'', ''1600 sqft'', ''5000 sf lot'', ''built 1995'', ''single family'']"
    by code_simp
  have b: "map lower (extra_keywords_of ''pool, Pool'') = [''pool'', ''pool'']"
    by code_simp
  have c: "build_keywords_from_selections repr_one_decimal (map (\<lambda>(g, items). (g, [])) feature_taxonomy) (Some 3) (Some 2) (Some 1600) (Some 5000) (Some 1995) ''Single Family'' []
      = build_keywords_from_selections repr_one_decimal [] (Some 3) (Some 2) (Some 1600) (Some 5000) (Some 1995) ''Single Family'' []"
    unfolding build_keywords_from_selections_def
    by (simp only: collect_tokens_no_labels[OF no_labels_selected])
  have d: "auto_keywords repr_one_decimal (map (\<lambda>(g, items). (g, [])) feature_taxonomy)
     3 2 1600 5000 1995 ''Single Family'' ''pool, Pool''
   = [''3 bedrooms'', ''2.0 bathrooms'', ''1600 sqft'', ''5000 sf lot'', ''built 1995'',
      ''single family'', ''pool'', ''pool'']"
    unfolding auto_keywords_def by (simp add: c a b)
  show ?thesis
    by (simp only: d) simp
qed

lemma count_list_append_tokens: "count_list (xs @ ys) y = count_list xs y + count_list ys y"
  by (induction xs) simp_all

text \<open>
  Claim C7. In the token list of the keyword builder, \<open>beds = 0\<close> gives the same
  tokens as \<open>beds = None\<close>, and a non-zero \<open>beds\<close> adds one bedrooms token. A
  \<open>baths\<close> value adds one bathrooms token whatever it is, zero included. With
  everything else empty, \<open>beds = 0\<close> and \<open>baths = 0\<close> give the keywords
  \<open>0.0 bathrooms\<close> alone.
\<close>

theorem bedrooms_need_truthy_beds_bathrooms_do_not:
  "collect_tokens fs sel (Some 0) baths_arg sq lot yr pt ex
     = collect_tokens fs sel None baths_arg sq lot yr pt ex
   \<and> (b \<noteq> 0 \<longrightarrow>
        count_list (collect_tokens fs sel (Some b) baths_arg sq lot yr pt ex)
                   (str_int (int_of_float b) @ '' bedrooms'')
        = count_list (collect_tokens fs sel None baths_arg sq lot yr pt ex)
                     (str_int (int_of_float b) @ '' bedrooms'') + 1)
   \<and> count_list (collect_tokens fs sel beds_arg (Some c) sq lot yr pt ex) (fs c @ '' bathrooms'')
       = count_list (collect_tokens fs sel beds_arg None sq lot yr pt ex) (fs c @ '' bathrooms'') + 1
   \<and> count_list (collect_tokens fs sel beds_arg (Some 0) sq lot yr pt ex) (fs 0 @ '' bathrooms'')
       = count_list (collect_tokens fs sel beds_arg None sq lot yr pt ex) (fs 0 @ '' bathrooms'') + 1
   \<and> build_keywords_from_selections repr_one_decimal [] (Some 0) (Some 0) None None None [] []
       = [''0.0 bathrooms'']
   \<and> build_keywords_from_selections repr_one_decimal [] None None None None None [] [] = []"
proof -
  have k: "build_keywords_from_selections repr_one_decimal [] (Some 0) (Some 0) None None None [] []
       = [''0.0 bathrooms'']" by code_simp
  have e: "build_keywords_from_selections repr_one_decimal [] None None None None None [] [] = []"
    by code_simp
  have baths: "count_list (collect_tokens fs sel beds_arg (Some c) sq lot yr pt ex) (fs c @ '' bathrooms'')
       = count_list (collect_tokens fs sel beds_arg None sq lot yr pt ex) (fs c @ '' bathrooms'') + 1" for c
    by (simp add: collect_tokens_def count_list_append_tokens)
  have beds: "count_list (collect_tokens fs sel (Some b) baths_arg sq lot yr pt ex)
                   (str_int (int_of_float b) @ '' bedrooms'')
        = count_list (collect_tokens fs sel None baths_arg sq lot yr pt ex)
                     (str_int (int_of_float b) @ '' bedrooms'') + 1" if "b \<noteq> 0"
    using that by (simp add: collect_tokens_def count_list_append_tokens)
  have zero: "collect_tokens fs sel (Some 0) baths_arg sq lot yr pt ex
     = collect_tokens fs sel None baths_arg sq lot yr pt ex"
    by (simp add: collect_tokens_def)
  show ?thesis
    by (intro conjI impI) (rule zero, erule beds, rule baths, rule baths, rule k, rule e)
qed

theorem bedrooms_need_truthy_beds_bathrooms_do_not_witness:
  "(3::rat) \<noteq> 0
   \<and> count_list (collect_tokens repr_one_decimal [] (Some 3) (Some 0) None None None [] []) ''3 bedrooms''
       = count_list (collect_tokens repr_one_decimal [] None (Some 0) None None None [] []) ''3 bedrooms'' + 1
   \<and> collect_tokens repr_one_decimal [] (Some 0) (Some 0) None None None [] []
       = collect_tokens repr_one_decimal [] None (Some 0) None None None [] []
   \<and> count_list (collect_tokens repr_one_decimal [] (Some 0) (Some 0) None None None [] []) ''0.0 bathrooms''
       = count_list (collect_tokens repr_one_decimal [] (Some 0) None None None None [] []) ''0.0 bathrooms'' + 1"
proof -
  have n: "(3::rat) \<noteq> 0" by simp
  have s3: "str_int (int_of_float 3) @ '' bedrooms'' = ''3 bedrooms''" by code_simp
  have s0: "repr_one_decimal 0 @ '' bathrooms'' = ''0.0 bathrooms''" by code_simp
  note t = bedrooms_need_truthy_beds_bathrooms_do_not[of repr_one_decimal "[]" "Some 0" None None None "[]" "[]" 3 "Some 0" 0]
  have 1: "count_list (collect_tokens repr_one_decimal [] (Some 3) (Some 0) None None None [] []) ''3 bedrooms''
       = count_list (collect_tokens repr_one_decimal [] None (Some 0) None None None [] []) ''3 bedrooms'' + 1"
    using t[THEN conjunct2, THEN conjunct1, THEN mp, OF n] unfolding s3 .
  have 2: "collect_tokens repr_one_decimal [] (Some 0) (Some 0) None None None [] []
       = collect_tokens repr_one_decimal [] None (Some 0) None None None [] []"
    using t[THEN conjunct1] .
  have 3: "count_list (collect_tokens repr_one_decimal [] (Some 0) (Some 0) None None None [] []) ''0.0 bathrooms''
       = count_list (collect_tokens repr_one_decimal [] (Some 0) None None None None [] []) ''0.0 bathrooms'' + 1"
    using t[THEN conjunct2, THEN conjunct2, THEN conjunct1] unfolding s0 .
  show ?thesis by (intro conjI) (rule n, rule 1, rule 2, rule 3)
qed

end
